theory Spec2Isabelle
  imports Main "HOL-Library.Word"
begin

unbundle bit_operations_syntax

section \<open>Bytes, PDUs and errors\<close>

text \<open>
  A Go \<open>byte\<close> is an 8-bit word: \<open>+\<close> wraps modulo 256, \<open>NOT\<close> is Go's unary \<open>^\<close>,
  \<open>drop_bit 4\<close> is \<open>>> 4\<close> and \<open>AND\<close> is \<open>&\<close>. A \<open>[]byte\<close> is a list of bytes.
  \<open>bytes_of\<close> writes a Go string literal as its bytes.
\<close>

type_synonym byte = "8 word"

definition bytes_of :: "string \<Rightarrow> byte list" where
  "bytes_of s = map of_char s"

text \<open>The three framing characters of Modbus ASCII: \<open>':'\<close>, \<open>'\r'\<close> and \<open>'\n'\<close>.\<close>

definition COLON :: byte where "COLON = 0x3A"
definition CR :: byte where "CR = 0x0D"
definition LF :: byte where "LF = 0x0A"

text \<open>The struct \<open>pdu\<close>: unit id, function code and payload.\<close>

record pdu =
  unitId :: byte
  functionCode :: byte
  payload :: "byte list"

text \<open>
  Errors of the link (\<open>Read\<close>, \<open>Write\<close>, \<open>SetDeadline\<close>): one for which \<open>os.IsTimeout\<close>
  holds and one for which it does not. The package's own sentinel errors are constructors
  of \<open>error\<close>; an error of the link that the transport hands on unchanged is \<open>ErrLink\<close>.
\<close>

datatype io_error = IOTimeout | IOFailure

fun os_IsTimeout :: "io_error \<Rightarrow> bool" where
  "os_IsTimeout IOTimeout = True"
| "os_IsTimeout IOFailure = False"

datatype error =
    ErrRequestTimedOut
  | ErrProtocolError
  | ErrShortFrame
  | ErrBadLRC
  | ErrLink io_error

section \<open>lrc.go\<close>

text \<open>
  \<open>computeLRC\<close>: the loop adds every byte to the 8-bit accumulator \<open>sum\<close> (wrapping),
  then the result is \<open>byte(^sum + 1)\<close>.
\<close>

definition computeLRC :: "byte list \<Rightarrow> byte" where
  "computeLRC buf = (let sum = fold (\<lambda>b sum. sum + b) buf 0 in NOT sum + 1)"

definition verifyLRC :: "byte list \<Rightarrow> byte \<Rightarrow> bool" where
  "verifyLRC buf lrc = (computeLRC buf = lrc)"

section \<open>The ASCII transport: framing\<close>

definition maxASCIIFrameLength :: nat where
  "maxASCIIFrameLength = 513"

text \<open>
  \<open>toHexUpper\<close>: the two characters \<open>table[b>>4]\<close> and \<open>table[b&0x0f]\<close> of the constant
  string \<open>"0123456789ABCDEF"\<close>. Both indices are below 16, so the lookups are in range.
\<close>

definition hexTable :: "byte list" where
  "hexTable = bytes_of ''0123456789ABCDEF''"

definition toHexUpper :: "byte \<Rightarrow> byte list" where
  "toHexUpper b = [hexTable ! unat (drop_bit 4 b), hexTable ! unat (b AND 0x0f)]"

text \<open>
  \<open>assembleASCIIFrame\<close>: \<open>buf\<close> is unit id, function code, payload and then the LRC of
  these; the frame is \<open>':'\<close>, the two hex digits of every byte of \<open>buf\<close>, and \<open>"\r\n"\<close>.
\<close>

definition assembleASCIIFrame :: "pdu \<Rightarrow> byte list" where
  "assembleASCIIFrame p =
     (let buf = [unitId p, functionCode p] @ payload p;
          lrc = computeLRC buf;
          buf = buf @ [lrc];
          frame = [COLON];
          frame = fold (\<lambda>b frame. frame @ toHexUpper b) buf frame
      in frame @ [CR, LF])"

text \<open>
  Go's \<open>encoding/hex\<close>. \<open>fromHexChar\<close> is the value of one hex digit (digits, lower case
  and upper case letters), \<open>None\<close> for any other byte. \<open>hex_Decode\<close> decodes pairs of
  digits into bytes, high nibble first, and fails (\<open>None\<close>) on an invalid digit or on an
  odd number of characters; the caller maps every failure to the same error.
\<close>

definition fromHexChar :: "byte \<Rightarrow> byte option" where
  "fromHexChar c =
     (if 0x30 \<le> c \<and> c \<le> 0x39 then Some (c - 0x30)
      else if 0x61 \<le> c \<and> c \<le> 0x66 then Some (c - 0x61 + 10)
      else if 0x41 \<le> c \<and> c \<le> 0x46 then Some (c - 0x41 + 10)
      else None)"

fun hex_Decode :: "byte list \<Rightarrow> byte list option" where
  "hex_Decode [] = Some []"
| "hex_Decode [p] = None"
| "hex_Decode (p # q # src) =
     (case fromHexChar p of
        None \<Rightarrow> None
      | Some a \<Rightarrow>
          (case fromHexChar q of
             None \<Rightarrow> None
           | Some b \<Rightarrow>
               (case hex_Decode src of
                  None \<Rightarrow> None
                | Some dst \<Rightarrow> Some ((push_bit 4 a OR b) # dst))))"

text \<open>
  The link as the reader sees it: the results of the successive calls \<open>Read(tmp)\<close> on
  the one-byte buffer \<open>tmp\<close>, each a count, the byte left in \<open>tmp[0]\<close> and an error or
  none. When the list is used up no further byte arrives, and the next \<open>Read\<close> blocks
  until the deadline armed by the caller expires, which is a timeout error of the link.
  \<open>link_of_bytes\<close> is a link that delivers the given bytes one per \<open>Read\<close>.
\<close>

datatype read_result = ReadResult (cnt: nat) (tmp0: byte) (rerr: "io_error option")

definition link_of_bytes :: "byte list \<Rightarrow> read_result list" where
  "link_of_bytes bs = map (\<lambda>b. ReadResult 1 b None) bs"

text \<open>
  The \<open>for\<close> loop of \<open>readASCIIFrame\<close>, with its variables \<open>rxbuf\<close> and \<open>colon\<close>: a
  failed \<open>Read\<close> returns (a timeout as \<open>ErrRequestTimedOut\<close>, any other error as it
  is), an empty \<open>Read\<close> and a byte before the first \<open>':'\<close> are skipped, every other byte
  is appended; the loop fails once \<open>rxbuf\<close> is longer than \<open>maxASCIIFrameLength\<close> and
  ends with \<open>rxbuf\<close> at \<open>'\n'\<close>.
\<close>

fun readASCIIFrame_loop :: "read_result list \<Rightarrow> byte list \<Rightarrow> bool \<Rightarrow> error + byte list" where
  "readASCIIFrame_loop [] rxbuf colon = Inl ErrRequestTimedOut"
| "readASCIIFrame_loop (r # link) rxbuf colon =
     (case rerr r of
        Some err \<Rightarrow> Inl (if os_IsTimeout err then ErrRequestTimedOut else ErrLink err)
      | None \<Rightarrow>
          if cnt r = 0 then readASCIIFrame_loop link rxbuf colon
          else if \<not> colon \<and> tmp0 r \<noteq> COLON then readASCIIFrame_loop link rxbuf colon
          else if length (rxbuf @ [tmp0 r]) > maxASCIIFrameLength then Inl ErrProtocolError
          else if tmp0 r = LF then Inr (rxbuf @ [tmp0 r])
          else readASCIIFrame_loop link (rxbuf @ [tmp0 r]) True)"

text \<open>
  \<open>readASCIIFrame\<close>: the loop, then the checks in the order of the source. The slices
  \<open>rxbuf[1 : len(rxbuf)-2]\<close>, \<open>raw[:len(raw)-1]\<close> and \<open>data[2:]\<close> and the reads
  \<open>rxbuf[len(rxbuf)-2]\<close>, \<open>raw[len(raw)-1]\<close>, \<open>data[0]\<close> and \<open>data[1]\<close> are all
  guarded by the length checks before them.
\<close>

definition readASCIIFrame :: "read_result list \<Rightarrow> error + pdu" where
  "readASCIIFrame link =
     (case readASCIIFrame_loop link [] False of
        Inl err \<Rightarrow> Inl err
      | Inr rxbuf \<Rightarrow>
          if length rxbuf < 3 \<or> rxbuf ! (length rxbuf - 2) \<noteq> CR then Inl ErrProtocolError
          else
            let hexPayload = drop 1 (take (length rxbuf - 2) rxbuf) in
            if length hexPayload < 6 then Inl ErrShortFrame
            else if length hexPayload mod 2 \<noteq> 0 then Inl ErrProtocolError
            else
              (case hex_Decode hexPayload of
                 None \<Rightarrow> Inl ErrProtocolError
               | Some raw \<Rightarrow>
                   if length raw < 3 then Inl ErrShortFrame
                   else
                     let data = take (length raw - 1) raw;
                         lrc = raw ! (length raw - 1)
                     in if \<not> verifyLRC data lrc then Inl ErrBadLRC
                        else Inr \<lparr>unitId = data ! 0, functionCode = data ! 1,
                                  payload = drop 2 data\<rparr>))"

section \<open>The ASCII transport: timing\<close>

text \<open>
  A \<open>time.Duration\<close> is a signed 64-bit count of nanoseconds: a product of durations
  wraps around (\<open>dur_mul\<close>) and a quotient truncates towards zero (\<open>dur_quot\<close>). A
  \<open>time.Time\<close> is read as the number of nanoseconds since Go's zero \<open>Time\<close>, an
  unbounded integer, and sums and differences of times are taken in the integers (the
  saturation of \<open>Time.Sub\<close> at about 292 years is left out).
\<close>

definition wrap64 :: "int \<Rightarrow> int" where
  "wrap64 x = (x + 2 ^ 63) mod 2 ^ 64 - 2 ^ 63"

definition dur_mul :: "int \<Rightarrow> int \<Rightarrow> int" where
  "dur_mul a b = wrap64 (a * b)"

definition dur_quot :: "int \<Rightarrow> int \<Rightarrow> int" where
  "dur_quot a b = sgn a * sgn b * (\<bar>a\<bar> div \<bar>b\<bar>)"

definition Microsecond :: int where
  "Microsecond = 1000"

text \<open>
  The struct \<open>asciiTransport\<close>. The logger plays no part in what follows, and the link
  is handed to the operations as an argument of its own.
\<close>

record asciiTransport =
  timeout :: int
  lastActivity :: int
  t35 :: int
  t1 :: int

text \<open>
  \<open>newASCIITransport\<close>. The function \<open>serialCharTime\<close> is a parameter: it gives the
  time of one character at a speed in baud. \<open>lastActivity\<close> is not set by the
  constructor and so is the zero \<open>Time\<close>.
\<close>

definition newASCIITransport :: "(nat \<Rightarrow> int) \<Rightarrow> nat \<Rightarrow> int \<Rightarrow> asciiTransport" where
  "newASCIITransport serialCharTime speed tmo =
     (let speed = (if speed = 0 then 19200 else speed);
          at = \<lparr>timeout = tmo, lastActivity = 0, t35 = 0, t1 = serialCharTime speed\<rparr>
      in if speed \<ge> 19200 then at\<lparr>t35 := 1750 * Microsecond\<rparr>
         else at\<lparr>t35 := dur_quot (dur_mul (serialCharTime speed) 35) 10\<rparr>)"

text \<open>
  The link and the clock around one call of \<open>ExecuteRequest\<close>. A \<open>link\<close> fixes what
  the calls on the link return (the error of \<open>SetDeadline\<close>, the count \<open>n\<close> and the
  error of the one \<open>Write\<close>, the results of the successive \<open>Read\<close>s) and how long they
  take, in nanoseconds: \<open>d_SetDeadline\<close>, \<open>d_Write\<close>,
  \<open>d_Read\<close> for the whole of \<open>readASCIIFrame\<close>, \<open>d_discard\<close>, and \<open>oversleep\<close>, by
  which every \<open>time.Sleep\<close> lasts longer than asked. A \<open>world\<close> is the reading \<open>now\<close>
  of the clock (\<open>time.Now()\<close>) and the \<open>trace\<close> of what was done on the link: each frame
  written and each start of reading, with the time of the call.
\<close>

record link =
  SetDeadline_err :: "io_error option"
  Write_n :: int
  Write_err :: "io_error option"
  Read_results :: "read_result list"
  d_SetDeadline :: nat
  d_Write :: nat
  d_Read :: nat
  d_discard :: nat
  oversleep :: nat

datatype event = EvWrite int "byte list" | EvRead int

record world =
  now :: int
  trace :: "event list"

definition elapse :: "nat \<Rightarrow> world \<Rightarrow> world" where
  "elapse d w = w\<lparr>now := now w + int d\<rparr>"

text \<open>\<open>time.Sleep d\<close> returns at once when \<open>d\<close> is negative or zero and lasts at least \<open>d\<close> otherwise.\<close>

definition Sleep :: "link \<Rightarrow> int \<Rightarrow> world \<Rightarrow> world" where
  "Sleep l d w = w\<lparr>now := now w + max 0 d + int (oversleep l)\<rparr>"

definition link_SetDeadline :: "link \<Rightarrow> world \<Rightarrow> world" where
  "link_SetDeadline l w = elapse (d_SetDeadline l) w"

definition link_Write :: "link \<Rightarrow> byte list \<Rightarrow> world \<Rightarrow> world" where
  "link_Write l frame w = elapse (d_Write l) (w\<lparr>trace := trace w @ [EvWrite (now w) frame]\<rparr>)"

definition link_readASCIIFrame :: "link \<Rightarrow> world \<Rightarrow> world" where
  "link_readASCIIFrame l w = elapse (d_Read l) (w\<lparr>trace := trace w @ [EvRead (now w)]\<rparr>)"

text \<open>
  Modelled from the spec: the helper \<open>discard\<close>, which the transport calls after a
  checksum, protocol or short-frame error, is not among the sources. The spec has it
  discard the bytes that still arrive on the link; here it takes the time \<open>d_discard\<close>
  and has no other effect on the transport.
\<close>

definition discard :: "link \<Rightarrow> world \<Rightarrow> world" where
  "discard l w = elapse (d_discard l) w"

text \<open>
  \<open>ExecuteRequest\<close>, statement by statement: arm the deadline (an error returns); sleep
  while less than \<open>t35\<close> has passed since \<open>lastActivity\<close>; take \<open>ts\<close>; write the frame (an
  error returns); set \<open>lastActivity\<close> to \<open>ts\<close> plus \<open>n\<close> character times; sleep until
  \<open>t35\<close> after that; read the response; after a checksum, protocol or short-frame
  error sleep one maximal frame time and discard; unless the error is
  \<open>ErrRequestTimedOut\<close> set \<open>lastActivity\<close> to the time now. The result is the PDU or
  error, the transport and the world after the call.
\<close>

definition ExecuteRequest ::
    "link \<Rightarrow> asciiTransport \<Rightarrow> world \<Rightarrow> pdu \<Rightarrow> (error + pdu) \<times> asciiTransport \<times> world" where
  "ExecuteRequest l at w req =
     (let w = link_SetDeadline l w in
      case SetDeadline_err l of
        Some err \<Rightarrow> (Inl (ErrLink err), at, w)
      | None \<Rightarrow>
          let t = now w - (lastActivity at + t35 at);
              w = (if t < 0 then Sleep l (- t) w else w);
              ts = now w;
              frame = assembleASCIIFrame req;
              n = Write_n l;
              w = link_Write l frame w
          in case Write_err l of
               Some err \<Rightarrow> (Inl (ErrLink err), at, w)
             | None \<Rightarrow>
                 let at = at\<lparr>lastActivity := ts + dur_mul n (t1 at)\<rparr>;
                     w = Sleep l (lastActivity at + t35 at - now w) w;
                     res = readASCIIFrame (Read_results l);
                     w = link_readASCIIFrame l w;
                     w = (if res = Inl ErrBadLRC \<or> res = Inl ErrProtocolError
                             \<or> res = Inl ErrShortFrame
                          then discard l (Sleep l (dur_mul (int maxASCIIFrameLength) (t1 at)) w)
                          else w);
                     at = (if res \<noteq> Inl ErrRequestTimedOut
                           then at\<lparr>lastActivity := now w\<rparr> else at)
                 in (res, at, w))"

section \<open>The RTU transport\<close>

text \<open>
  Modelled from the spec: the RTU transport is not among the sources. These are its
  errors as the spec names them: request-timed-out, bad-checksum, short-frame and
  protocol-error; an error of the link itself is handed on as \<open>RTULink\<close>.
\<close>

datatype rtu_error =
    RTURequestTimedOut
  | RTUBadChecksum
  | RTUShortFrame
  | RTUProtocolError
  | RTULink io_error

text \<open>
  Modelled from the spec: \<open>computeCRC16\<close> is not among the sources. The spec has
  it as the standard Modbus CRC16 with polynomial \<open>0xA001\<close>, initial register \<open>0xFFFF\<close>
  and bitwise reflection: every byte is folded into the low half of the register,
  which is then shifted right eight times, the polynomial being added whenever a one
  is shifted out.
\<close>

definition crc16_shift :: "16 word \<Rightarrow> 16 word" where
  "crc16_shift crc = (if bit crc 0 then drop_bit 1 crc XOR 0xA001 else drop_bit 1 crc)"

definition crc16_update :: "byte \<Rightarrow> 16 word \<Rightarrow> 16 word" where
  "crc16_update b crc = (crc16_shift ^^ 8) (crc XOR ucast b)"

definition computeCRC16 :: "byte list \<Rightarrow> 16 word" where
  "computeCRC16 bs = fold crc16_update bs 0xFFFF"

text \<open>
  Modelled from the spec: the assembly of an RTU frame is not among the sources. The
  spec has the frame as unit id, function code, payload and the CRC16 of these in two
  bytes, low byte first.
\<close>

definition assembleRTUFrame :: "pdu \<Rightarrow> byte list" where
  "assembleRTUFrame p =
     (let buf = [unitId p, functionCode p] @ payload p;
          crc = computeCRC16 buf
      in buf @ [ucast crc, ucast (drop_bit 8 crc)])"

text \<open>
  Modelled from the spec: the state of an RTU transport is not among the sources. The
  spec gives it the timeout of an operation, the time of the last activity and the two
  constants \<open>t1\<close> and \<open>t3.5\<close>; the link is an argument of its own, as for the ASCII
  transport.
\<close>

record rtuTransport =
  rtu_timeout :: int
  rtu_lastActivity :: int
  rtu_t35 :: int
  rtu_t1 :: int

text \<open>
  Modelled from the spec: reading a response frame on the RTU transport is not among
  the sources. It takes the time \<open>d_Read\<close> and is entered in the trace; what it yields
  is an argument of \<open>rtu_ExecuteRequest\<close>.
\<close>

definition link_readRTUFrame :: "link \<Rightarrow> world \<Rightarrow> world" where
  "link_readRTUFrame l w = elapse (d_Read l) (w\<lparr>trace := trace w @ [EvRead (now w)]\<rparr>)"

text \<open>
  Modelled from the spec: \<open>ExecuteRequest\<close> of the RTU transport is not among the
  sources. In the words of the spec it arms a deadline of \<open>timeout\<close>; if less than
  \<open>t3.5\<close> has elapsed since the last activity it blocks for the remainder; it writes
  the CRC16-framed request; it updates the last activity from the bytes actually
  written and \<open>t1\<close>, counted from the time of the write as the ASCII transport does;
  it waits out the trailing \<open>t3.5\<close> before reading; it reads and parses a response
  frame; on a checksum mismatch, a truncated frame or a protocol violation it discards
  what arrives within one maximal frame time and returns the error; a successful
  receipt or a failure other than the timeout sets the last activity to the time now.
  An error of the link on arming the deadline or on writing ends the call. The outcome
  \<open>response\<close> of reading and parsing the response frame is an argument, since the
  spec frames RTU by the silence between bytes, and so is the maximal length
  \<open>maxRTUFrameLength\<close> of a frame.
\<close>

definition rtu_ExecuteRequest ::
    "link \<Rightarrow> nat \<Rightarrow> rtu_error + pdu \<Rightarrow> rtuTransport \<Rightarrow> world \<Rightarrow> pdu
     \<Rightarrow> (rtu_error + pdu) \<times> rtuTransport \<times> world" where
  "rtu_ExecuteRequest l maxRTUFrameLength response rt w req =
     (let w = link_SetDeadline l w in
      case SetDeadline_err l of
        Some err \<Rightarrow> (Inl (RTULink err), rt, w)
      | None \<Rightarrow>
          let elapsed = now w - rtu_lastActivity rt;
              w = (if elapsed < rtu_t35 rt then Sleep l (rtu_t35 rt - elapsed) w else w);
              ts = now w;
              frame = assembleRTUFrame req;
              n = Write_n l;
              w = link_Write l frame w
          in case Write_err l of
               Some err \<Rightarrow> (Inl (RTULink err), rt, w)
             | None \<Rightarrow>
                 let rt = rt\<lparr>rtu_lastActivity := ts + dur_mul n (rtu_t1 rt)\<rparr>;
                     w = Sleep l (rtu_lastActivity rt + rtu_t35 rt - now w) w;
                     res = response;
                     w = link_readRTUFrame l w;
                     w = (if res = Inl RTUBadChecksum \<or> res = Inl RTUShortFrame
                             \<or> res = Inl RTUProtocolError
                          then discard l
                                 (Sleep l (dur_mul (int maxRTUFrameLength) (rtu_t1 rt)) w)
                          else w);
                     rt = (if res \<noteq> Inl RTURequestTimedOut
                           then rt\<lparr>rtu_lastActivity := now w\<rparr> else rt)
                 in (res, rt, w))"

section \<open>Checksum\<close>

lemma computeLRC_fold: "fold (\<lambda>b sum. sum + b) buf (s :: byte) = s + sum_list buf"
  by (induction buf arbitrary: s) (simp_all add: add.assoc)

lemma computeLRC_neg_sum: "computeLRC buf = - sum_list buf"
  by (simp add: computeLRC_def computeLRC_fold minus_eq_not_plus_1)

section \<open>Hexadecimal digits\<close>

lemma hexTable_length: "length hexTable = 16"
  by (simp add: hexTable_def bytes_of_def)

lemma fromHexChar_hexTable_list:
  "list_all (\<lambda>n. fromHexChar (hexTable ! n) = Some (of_nat n))
     [0, 1, 2, 3, 4, 5, 6, 7, 8, 9, 10, 11, 12, 13, 14, 15]"
  by (simp add: hexTable_def bytes_of_def fromHexChar_def)

lemma nibble_cases:
  "n < 16 \<Longrightarrow> n \<in> set [0, 1, 2, 3, 4, 5, 6, 7, 8, 9, 10, 11, 12, 13, 14, 15 :: nat]"
  by (simp; arith)

lemma fromHexChar_hexTable: "n < 16 \<Longrightarrow> fromHexChar (hexTable ! n) = Some (of_nat n)"
  using fromHexChar_hexTable_list nibble_cases [of n] unfolding list_all_iff by blast

lemma mask4: "(15 :: byte) = mask 4"
  by (simp add: mask_eq_exp_minus_1)

lemma hi_nibble_bound: "unat (drop_bit 4 (b :: byte)) < 16"
proof -
  have "unat b < 256" using unsigned_less [of b] by simp
  then show ?thesis by (simp add: drop_bit_eq_div unat_div)
qed

lemma lo_nibble_bound: "unat ((b :: byte) AND 0x0f) < 16"
  unfolding mask4 by (simp flip: take_bit_eq_mask add: take_bit_eq_mod unat_mod)

lemma nibbles_join: "push_bit 4 (drop_bit 4 b) OR (b AND 0x0f) = (b :: byte)"
  unfolding mask4 by (rule bit_word_eqI) (auto simp add: bit_simps)

lemma hex_Decode_toHexUpper:
  "hex_Decode (toHexUpper b @ src) = map_option ((#) b) (hex_Decode src)"
proof -
  have h: "fromHexChar (hexTable ! unat (drop_bit 4 b)) = Some (drop_bit 4 b)"
    using fromHexChar_hexTable [OF hi_nibble_bound [of b]] by simp
  have l: "fromHexChar (hexTable ! unat (b AND 0x0f)) = Some (b AND 0x0f)"
    using fromHexChar_hexTable [OF lo_nibble_bound [of b]] by simp
  show ?thesis
    by (cases "hex_Decode src") (simp_all add: toHexUpper_def h l nibbles_join)
qed

lemma hex_Decode_concat: "hex_Decode (concat (map toHexUpper buf)) = Some buf"
  by (induction buf) (simp_all add: hex_Decode_toHexUpper)

lemma fold_toHexUpper:
  "fold (\<lambda>b frame. frame @ toHexUpper b) buf frame = frame @ concat (map toHexUpper buf)"
  by (induction buf arbitrary: frame) simp_all

lemma assembleASCIIFrame_eq:
  "assembleASCIIFrame p =
     COLON # concat (map toHexUpper (unitId p # functionCode p # payload p @
       [computeLRC (unitId p # functionCode p # payload p)])) @ [CR, LF]"
  by (simp add: assembleASCIIFrame_def fold_toHexUpper)

lemma length_toHexUpper: "length (toHexUpper b) = 2"
  by (simp add: toHexUpper_def)

lemma length_concat_toHexUpper: "length (concat (map toHexUpper buf)) = 2 * length buf"
  by (induction buf) (simp_all add: length_toHexUpper)

lemma toHexUpper_subset: "set (toHexUpper b) \<subseteq> set hexTable"
  using hi_nibble_bound [of b] lo_nibble_bound [of b]
  by (simp add: toHexUpper_def hexTable_length)

lemma concat_toHexUpper_subset: "set (concat (map toHexUpper buf)) \<subseteq> set hexTable"
proof (induction buf)
  case Nil
  show ?case by simp
next
  case (Cons b buf)
  then show ?case using toHexUpper_subset [of b] by simp
qed

lemma LF_notin_hexTable: "LF \<notin> set hexTable"
  by (simp add: hexTable_def bytes_of_def LF_def)

section \<open>The scanning loop\<close>

lemma link_of_bytes_Nil: "link_of_bytes [] = []"
  by (simp add: link_of_bytes_def)

lemma link_of_bytes_Cons: "link_of_bytes (b # bs) = ReadResult 1 b None # link_of_bytes bs"
  by (simp add: link_of_bytes_def)

lemma link_of_bytes_append: "link_of_bytes (xs @ ys) = link_of_bytes xs @ link_of_bytes ys"
  by (simp add: link_of_bytes_def)

lemma loop_step_noise:
  "b \<noteq> COLON \<Longrightarrow>
   readASCIIFrame_loop (ReadResult 1 b None # link) rxbuf False =
   readASCIIFrame_loop link rxbuf False"
  by simp

lemma loop_step_append:
  "b \<noteq> LF \<Longrightarrow> length rxbuf < maxASCIIFrameLength \<Longrightarrow>
   readASCIIFrame_loop (ReadResult 1 b None # link) rxbuf True =
   readASCIIFrame_loop link (rxbuf @ [b]) True"
  by simp

lemma loop_step_LF:
  "length rxbuf < maxASCIIFrameLength \<Longrightarrow>
   readASCIIFrame_loop (ReadResult 1 LF None # link) rxbuf True = Inr (rxbuf @ [LF])"
  by simp

lemma loop_step_overflow:
  "maxASCIIFrameLength \<le> length rxbuf \<Longrightarrow>
   readASCIIFrame_loop (ReadResult 1 b None # link) rxbuf True = Inl ErrProtocolError"
  by simp

lemma loop_noise:
  "COLON \<notin> set ns \<Longrightarrow>
   readASCIIFrame_loop (link_of_bytes ns @ link) [] False = readASCIIFrame_loop link [] False"
proof (induction ns)
  case Nil
  show ?case by (simp add: link_of_bytes_Nil)
next
  case (Cons b ns)
  then have "b \<noteq> COLON" and "COLON \<notin> set ns" by auto
  then show ?case using Cons.IH by (simp add: link_of_bytes_Cons)
qed

lemma loop_colon:
  "readASCIIFrame_loop (link_of_bytes (COLON # bs) @ link) [] False =
   readASCIIFrame_loop (link_of_bytes bs @ link) [COLON] True"
  by (simp add: link_of_bytes_Cons maxASCIIFrameLength_def COLON_def LF_def)

lemma loop_body:
  "LF \<notin> set bs \<Longrightarrow> length rxbuf + length bs < maxASCIIFrameLength \<Longrightarrow>
   readASCIIFrame_loop (link_of_bytes (bs @ [LF]) @ link) rxbuf True = Inr (rxbuf @ bs @ [LF])"
proof (induction bs arbitrary: rxbuf)
  case Nil
  then show ?case by (simp add: link_of_bytes_Nil link_of_bytes_Cons)
next
  case (Cons b bs)
  from Cons.prems have b: "b \<noteq> LF" and bs: "LF \<notin> set bs"
    and len: "length rxbuf < maxASCIIFrameLength"
    and len': "length (rxbuf @ [b]) + length bs < maxASCIIFrameLength"
    by auto
  have "readASCIIFrame_loop (link_of_bytes ((b # bs) @ [LF]) @ link) rxbuf True =
        readASCIIFrame_loop (link_of_bytes (bs @ [LF]) @ link) (rxbuf @ [b]) True"
    using b len by (simp add: link_of_bytes_Cons)
  also have "\<dots> = Inr ((rxbuf @ [b]) @ bs @ [LF])"
    using bs len' by (rule Cons.IH)
  finally show ?case by simp
qed

lemma loop_overflow:
  "LF \<notin> set bs \<Longrightarrow> length rxbuf + length bs > maxASCIIFrameLength \<Longrightarrow>
   length rxbuf \<le> maxASCIIFrameLength \<Longrightarrow>
   readASCIIFrame_loop (link_of_bytes bs @ link) rxbuf True = Inl ErrProtocolError"
proof (induction bs arbitrary: rxbuf)
  case Nil
  then show ?case by simp
next
  case (Cons b bs)
  from Cons.prems have b: "b \<noteq> LF" and bs: "LF \<notin> set bs" by auto
  show ?case
  proof (cases "length rxbuf = maxASCIIFrameLength")
    case True
    then show ?thesis by (simp add: link_of_bytes_Cons)
  next
    case False
    with Cons.prems have len: "length rxbuf < maxASCIIFrameLength"
      and len': "length (rxbuf @ [b]) + length bs > maxASCIIFrameLength"
      and len'': "length (rxbuf @ [b]) \<le> maxASCIIFrameLength" by auto
    have "readASCIIFrame_loop (link_of_bytes (b # bs) @ link) rxbuf True =
        readASCIIFrame_loop (link_of_bytes bs @ link) (rxbuf @ [b]) True"
      using b len by (simp add: link_of_bytes_Cons)
    also have "\<dots> = Inl ErrProtocolError"
      using bs len' len'' by (rule Cons.IH)
    finally show ?thesis .
  qed
qed

section \<open>Reading one frame\<close>

lemma CR_neq_LF: "CR \<noteq> LF"
  by (simp add: CR_def LF_def)

lemma loop_frame:
  assumes "LF \<notin> set body" and "length body + 3 \<le> maxASCIIFrameLength"
  shows "readASCIIFrame_loop (link_of_bytes (COLON # body @ [CR, LF]) @ link) [] False =
         Inr (COLON # body @ [CR, LF])"
proof -
  have "readASCIIFrame_loop (link_of_bytes (COLON # body @ [CR, LF]) @ link) [] False =
        readASCIIFrame_loop (link_of_bytes ((body @ [CR]) @ [LF]) @ link) [COLON] True"
    by (simp add: loop_colon)
  also have "\<dots> = Inr ([COLON] @ (body @ [CR]) @ [LF])"
    using assms CR_neq_LF by (intro loop_body) simp_all
  finally show ?thesis by simp
qed

lemma readASCIIFrame_frame:
  assumes "LF \<notin> set body" and "length body + 3 \<le> maxASCIIFrameLength"
  shows "readASCIIFrame (link_of_bytes (COLON # body @ [CR, LF]) @ link) =
     (if length body < 6 then Inl ErrShortFrame
      else if length body mod 2 \<noteq> 0 then Inl ErrProtocolError
      else case hex_Decode body of
             None \<Rightarrow> Inl ErrProtocolError
           | Some raw \<Rightarrow>
               if length raw < 3 then Inl ErrShortFrame
               else if \<not> verifyLRC (take (length raw - 1) raw) (raw ! (length raw - 1))
                 then Inl ErrBadLRC
               else Inr \<lparr>unitId = raw ! 0, functionCode = raw ! 1,
                         payload = drop 2 (take (length raw - 1) raw)\<rparr>)"
proof -
  have nth: "(COLON # body @ [CR, LF]) ! Suc (length body) = CR"
    by (simp add: nth_append)
  show ?thesis
    unfolding readASCIIFrame_def loop_frame [OF assms]
    by (simp add: nth Let_def split: option.splits)
qed

lemma loop_overflow_at:
  "LF \<notin> set bs \<Longrightarrow> length rxbuf + length bs = maxASCIIFrameLength \<Longrightarrow>
   readASCIIFrame_loop (link_of_bytes (bs @ b # rest) @ link) rxbuf True = Inl ErrProtocolError"
proof (induction bs arbitrary: rxbuf)
  case Nil
  then show ?case by (simp add: link_of_bytes_Cons)
next
  case (Cons c bs)
  from Cons.prems have c: "c \<noteq> LF" and bs: "LF \<notin> set bs"
    and len: "length rxbuf < maxASCIIFrameLength"
    and len': "length (rxbuf @ [c]) + length bs = maxASCIIFrameLength" by auto
  have "readASCIIFrame_loop (link_of_bytes ((c # bs) @ b # rest) @ link) rxbuf True =
        readASCIIFrame_loop (link_of_bytes (bs @ b # rest) @ link) (rxbuf @ [c]) True"
    using c len by (simp add: link_of_bytes_Cons)
  also have "\<dots> = Inl ErrProtocolError"
    using bs len' by (rule Cons.IH)
  finally show ?case .
qed

lemma readASCIIFrame_oversize:
  assumes "LF \<notin> set body" and "length body + 3 > maxASCIIFrameLength"
  shows "readASCIIFrame (link_of_bytes (COLON # body @ [CR, LF]) @ link) = Inl ErrProtocolError"
proof -
  have start: "readASCIIFrame_loop (link_of_bytes (COLON # body @ [CR, LF]) @ link) [] False =
        readASCIIFrame_loop (link_of_bytes ((body @ [CR]) @ LF # []) @ link) [COLON] True"
    by (simp add: loop_colon)
  have "readASCIIFrame_loop (link_of_bytes ((body @ [CR]) @ LF # []) @ link) [COLON] True =
        Inl ErrProtocolError"
  proof (cases "length body + 2 = maxASCIIFrameLength")
    case True
    then show ?thesis using assms(1) CR_neq_LF by (intro loop_overflow_at) simp_all
  next
    case False
    with assms(2) have "length [COLON] + length (body @ [CR]) > maxASCIIFrameLength" by simp
    then have "readASCIIFrame_loop (link_of_bytes (body @ [CR]) @ (link_of_bytes [LF] @ link))
        [COLON] True = Inl ErrProtocolError"
      using assms(1) CR_neq_LF by (intro loop_overflow) (simp_all add: maxASCIIFrameLength_def)
    then show ?thesis by (simp add: link_of_bytes_def)
  qed
  with start show ?thesis by (simp add: readASCIIFrame_def)
qed

lemma readASCIIFrame_assemble:
  assumes "length (payload p) \<le> 252"
  shows "readASCIIFrame (link_of_bytes (assembleASCIIFrame p) @ link) = Inr p"
proof -
  define buf where "buf = unitId p # functionCode p # payload p"
  define raw where "raw = buf @ [computeLRC buf]"
  define body where "body = concat (map toHexUpper raw)"
  have frame: "assembleASCIIFrame p = COLON # body @ [CR, LF]"
    by (simp add: assembleASCIIFrame_eq body_def raw_def buf_def)
  have len: "length body = 2 * length (payload p) + 6"
    unfolding body_def length_concat_toHexUpper by (simp add: raw_def buf_def)
  have noLF: "LF \<notin> set body"
    using concat_toHexUpper_subset [of raw] LF_notin_hexTable unfolding body_def by blast
  have fits: "length body + 3 \<le> maxASCIIFrameLength"
    using assms by (simp add: len maxASCIIFrameLength_def)
  have dec: "hex_Decode body = Some raw"
    by (simp add: body_def hex_Decode_concat)
  have data: "take (length raw - Suc 0) raw = buf"
    and lrc: "raw ! (length raw - Suc 0) = computeLRC buf"
    by (simp_all add: raw_def)
  have rlen: "\<not> length raw < 3"
    by (simp add: raw_def buf_def)
  have "readASCIIFrame (link_of_bytes (COLON # body @ [CR, LF]) @ link) =
        Inr \<lparr>unitId = raw ! 0, functionCode = raw ! 1, payload = drop 2 buf\<rparr>"
    unfolding readASCIIFrame_frame [OF noLF fits]
    by (simp add: len dec data lrc rlen verifyLRC_def)
  also have "\<dots> = Inr p"
    by (simp add: raw_def buf_def)
  finally show ?thesis by (simp add: frame)
qed

lemma readASCIIFrame_assemble_long:
  assumes "length (payload p) > 252"
  shows "readASCIIFrame (link_of_bytes (assembleASCIIFrame p) @ link) = Inl ErrProtocolError"
proof -
  define raw where "raw = unitId p # functionCode p # payload p @
       [computeLRC (unitId p # functionCode p # payload p)]"
  define body where "body = concat (map toHexUpper raw)"
  have frame: "assembleASCIIFrame p = COLON # body @ [CR, LF]"
    by (simp add: assembleASCIIFrame_eq body_def raw_def)
  have len: "length body = 2 * length (payload p) + 6"
    unfolding body_def length_concat_toHexUpper by (simp add: raw_def)
  have noLF: "LF \<notin> set body"
    using concat_toHexUpper_subset [of raw] LF_notin_hexTable unfolding body_def by blast
  have "length body + 3 > maxASCIIFrameLength"
    using assms by (simp add: len maxASCIIFrameLength_def)
  from readASCIIFrame_oversize [OF noLF this] show ?thesis by (simp add: frame)
qed

section \<open>Properties of the checksum\<close>

lemma unat_sum_list_byte: "unat (sum_list buf :: byte) = sum_list (map unat buf) mod 256"
proof (induction buf)
  case Nil
  show ?case by simp
next
  case (Cons b buf)
  have "unat (b + sum_list buf) = (unat b + unat (sum_list buf)) mod 256"
    by (simp add: unat_word_ariths)
  also have "\<dots> = (unat b + sum_list (map unat buf) mod 256) mod 256"
    by (simp only: Cons.IH)
  also have "\<dots> = (unat b + sum_list (map unat buf)) mod 256"
    by (rule mod_add_right_eq)
  finally show ?case by simp
qed

lemma unat_neg_byte: "unat (- x :: byte) = (256 - unat x) mod 256"
proof -
  have "unat x < 256" using unsigned_less [of x] by simp
  moreover have "unat (0 - x) = (if unat x \<le> 0 then 0 - unat x else 0 + 2 ^ 8 - unat x)"
    using unat_sub_if_size [of 0 x] by (simp add: word_size)
  ultimately show ?thesis by (cases "unat x = 0") simp_all
qed

text \<open>
  C2: for every byte sequence \<open>B\<close>, the empty one included, \<open>verifyLRC B (computeLRC B)\<close>
  is true, and for every byte \<open>X\<close> other than \<open>computeLRC B\<close>, \<open>verifyLRC B X\<close> is false.
\<close>

theorem verifyLRC_iff:
  "verifyLRC B (computeLRC B) \<and> (X \<noteq> computeLRC B \<longrightarrow> \<not> verifyLRC B X)"
  by (auto simp add: verifyLRC_def)

theorem verifyLRC_iff_witness:
  "verifyLRC [0x10, 0x11, 0x12] (computeLRC [0x10, 0x11, 0x12]) \<and>
   (0xCC :: byte) \<noteq> computeLRC [0x10, 0x11, 0x12] \<and>
   \<not> verifyLRC [0x10, 0x11, 0x12] 0xCC \<and>
   verifyLRC [] (computeLRC [])"
  using verifyLRC_iff [of "[0x10, 0x11, 0x12]" "0xCC"] verifyLRC_iff [of "[]" 0]
  by (simp add: computeLRC_def)

text \<open>
  C3: \<open>computeLRC\<close> is defined on every byte sequence, the empty one included, and
  returns the two's complement of the sum modulo 256 of the bytes: in 8-bit arithmetic
  the negated sum, and as a number \<open>(256 - s mod 256) mod 256\<close> for the sum \<open>s\<close> of the
  byte values. In particular the LRC of \<open>01 03 00 13 00 0a\<close> is \<open>0xDF\<close> and the LRC of
  \<open>10 11 12\<close> is \<open>0xCD\<close>.
\<close>

theorem computeLRC_twos_complement:
  "computeLRC buf = - sum_list buf \<and>
   unat (computeLRC buf) = (256 - sum_list (map unat buf) mod 256) mod 256 \<and>
   computeLRC [] = 0 \<and>
   computeLRC [0x01, 0x03, 0x00, 0x13, 0x00, 0x0a] = 0xDF \<and>
   computeLRC [0x10, 0x11, 0x12] = 0xCD"
proof -
  have "unat (computeLRC buf) = (256 - sum_list (map unat buf) mod 256) mod 256"
    by (simp only: computeLRC_neg_sum unat_neg_byte unat_sum_list_byte)
  moreover have "computeLRC [] = 0"
    by (simp add: computeLRC_def)
  moreover have "computeLRC [0x01, 0x03, 0x00, 0x13, 0x00, 0x0a] = 0xDF"
    by (simp add: computeLRC_def)
  moreover have "computeLRC [0x10, 0x11, 0x12] = 0xCD"
    by (simp add: computeLRC_def)
  ultimately show ?thesis using computeLRC_neg_sum [of buf] by blast
qed

section \<open>Properties of the framing\<close>

text \<open>
  C4: \<open>readASCIIFrame\<close> on the bytes \<open>":31030411223362\r\n"\<close> returns the PDU with unit
  id \<open>0x31\<close>, function code \<open>0x03\<close> and payload \<open>04 11 22 33\<close>; on the same frame with
  the two digits of the LRC replaced by \<open>"00"\<close> it returns the bad-LRC error; on the
  frame \<open>":33\r\n"\<close> it returns the short-frame error.
\<close>

theorem readASCIIFrame_examples:
  "readASCIIFrame (link_of_bytes (bytes_of '':31030411223362'' @ [CR, LF])) =
     Inr \<lparr>unitId = 0x31, functionCode = 0x03, payload = [0x04, 0x11, 0x22, 0x33]\<rparr> \<and>
   readASCIIFrame (link_of_bytes (bytes_of '':31030411223300'' @ [CR, LF])) = Inl ErrBadLRC \<and>
   readASCIIFrame (link_of_bytes (bytes_of '':33'' @ [CR, LF])) = Inl ErrShortFrame"
proof -
  note defs = readASCIIFrame_def link_of_bytes_def bytes_of_def COLON_def CR_def LF_def
    maxASCIIFrameLength_def fromHexChar_def verifyLRC_def computeLRC_def
  have "readASCIIFrame (link_of_bytes (bytes_of '':31030411223362'' @ [CR, LF])) =
     Inr \<lparr>unitId = 0x31, functionCode = 0x03, payload = [0x04, 0x11, 0x22, 0x33]\<rparr>"
    by (simp add: defs)
  moreover have
    "readASCIIFrame (link_of_bytes (bytes_of '':31030411223300'' @ [CR, LF])) = Inl ErrBadLRC"
    by (simp add: defs)
  moreover have
    "readASCIIFrame (link_of_bytes (bytes_of '':33'' @ [CR, LF])) = Inl ErrShortFrame"
    by (simp add: defs)
  ultimately show ?thesis by blast
qed

text \<open>
  C1, as amended: for every PDU \<open>P\<close> whose payload has at most 252 bytes, feeding the
  bytes of \<open>assembleASCIIFrame P\<close> to \<open>readASCIIFrame\<close> yields \<open>P\<close> again (same unit id,
  function code and payload); and \<open>assembleASCIIFrame\<close> of unit id \<open>0x33\<close>, function
  code \<open>0x11\<close> and payload \<open>22 33\<close> is exactly \<open>":3311223367\r\n"\<close>. The frame of a
  longer payload has more than \<open>maxASCIIFrameLength\<close> bytes, and the reader refuses it
  with the protocol error, as the frame of 253 zero bytes shows.
\<close>
theorem ascii_roundtrip:
  "(length (payload P) \<le> 252 \<longrightarrow>
      readASCIIFrame (link_of_bytes (assembleASCIIFrame P)) = Inr P) \<and>
   assembleASCIIFrame \<lparr>unitId = 0x33, functionCode = 0x11, payload = [0x22, 0x33]\<rparr> =
     bytes_of '':3311223367'' @ [CR, LF]"
proof -
  have "readASCIIFrame (link_of_bytes (assembleASCIIFrame P)) = Inr P"
    if "length (payload P) \<le> 252"
    using readASCIIFrame_assemble [OF that, of "[]"] by simp
  moreover have
    "assembleASCIIFrame \<lparr>unitId = 0x33, functionCode = 0x11, payload = [0x22, 0x33]\<rparr> =
     bytes_of '':3311223367'' @ [CR, LF]"
    by (simp add: assembleASCIIFrame_def computeLRC_def toHexUpper_def hexTable_def
        bytes_of_def COLON_def CR_def LF_def)
  ultimately show ?thesis by blast
qed

theorem ascii_roundtrip_witness:
  "length (payload \<lparr>unitId = 0x33, functionCode = 0x11, payload = [0x22, 0x33]\<rparr>) \<le> 252 \<and>
   readASCIIFrame (link_of_bytes (bytes_of '':3311223367'' @ [CR, LF])) =
     Inr \<lparr>unitId = 0x33, functionCode = 0x11, payload = [0x22, 0x33]\<rparr>"
proof -
  let ?P = "\<lparr>unitId = 0x33, functionCode = 0x11, payload = [0x22, 0x33]\<rparr>"
  have len: "length (payload ?P) \<le> 252" by simp
  from ascii_roundtrip [of ?P] len
  have "readASCIIFrame (link_of_bytes (assembleASCIIFrame ?P)) = Inr ?P"
    and "assembleASCIIFrame ?P = bytes_of '':3311223367'' @ [CR, LF]"
    by blast+
  then have "readASCIIFrame (link_of_bytes (bytes_of '':3311223367'' @ [CR, LF])) = Inr ?P"
    by (simp only:)
  with len show ?thesis by blast
qed

theorem ascii_roundtrip_counterexample:
  "readASCIIFrame (link_of_bytes (assembleASCIIFrame
      \<lparr>unitId = 0x01, functionCode = 0x10, payload = replicate 253 0x00\<rparr>)) =
     Inl ErrProtocolError \<and>
   readASCIIFrame (link_of_bytes (assembleASCIIFrame
      \<lparr>unitId = 0x01, functionCode = 0x10, payload = replicate 253 0x00\<rparr>)) \<noteq>
     Inr \<lparr>unitId = 0x01, functionCode = 0x10, payload = replicate 253 0x00\<rparr>"
  using readASCIIFrame_assemble_long
    [of "\<lparr>unitId = 0x01, functionCode = 0x10, payload = replicate 253 0x00\<rparr>" "[]"]
  by simp

text \<open>
  C5, as amended: for a received frame \<open>':'\<close>, region, \<open>"\r\n"\<close> whose region has odd
  length, \<open>readASCIIFrame\<close> returns the protocol error when the region has at least 6
  characters and the short-frame error when it has fewer: the length check comes
  before the parity check. The region \<open>"310"\<close> is odd and gives the short-frame error.
\<close>
theorem odd_region:
  "LF \<notin> set region \<and> odd (length region) \<longrightarrow>
     readASCIIFrame (link_of_bytes (COLON # region @ [CR, LF])) =
       (if length region < 6 then Inl ErrShortFrame else Inl ErrProtocolError)"
proof
  assume a: "LF \<notin> set region \<and> odd (length region)"
  show "readASCIIFrame (link_of_bytes (COLON # region @ [CR, LF])) =
       (if length region < 6 then Inl ErrShortFrame else Inl ErrProtocolError)"
  proof (cases "length region + 3 \<le> maxASCIIFrameLength")
    case True
    from a have "length region mod 2 \<noteq> 0" by (simp add: odd_iff_mod_2_eq_one)
    with a True show ?thesis
      using readASCIIFrame_frame [of region "[]"] by simp
  next
    case False
    then have "length region + 3 > maxASCIIFrameLength" by simp
    moreover from this have "\<not> length region < 6" by (simp add: maxASCIIFrameLength_def)
    ultimately show ?thesis
      using a readASCIIFrame_oversize [of region "[]"] by simp
  qed
qed

theorem odd_region_witness:
  "LF \<notin> set (bytes_of ''3103041'') \<and> odd (length (bytes_of ''3103041'')) \<and>
   readASCIIFrame (link_of_bytes (COLON # bytes_of ''3103041'' @ [CR, LF])) = Inl ErrProtocolError \<and>
   LF \<notin> set (bytes_of ''310'') \<and> odd (length (bytes_of ''310'')) \<and>
   readASCIIFrame (link_of_bytes (COLON # bytes_of ''310'' @ [CR, LF])) = Inl ErrShortFrame"
  using odd_region [of "bytes_of ''3103041''"] odd_region [of "bytes_of ''310''"]
  by (simp add: bytes_of_def LF_def)

theorem odd_region_counterexample:
  "odd (length (bytes_of ''310'')) \<and>
   readASCIIFrame (link_of_bytes (bytes_of '':310'' @ [CR, LF])) = Inl ErrShortFrame \<and>
   readASCIIFrame (link_of_bytes (bytes_of '':310'' @ [CR, LF])) \<noteq> Inl ErrProtocolError"
  by (simp add: readASCIIFrame_def link_of_bytes_def bytes_of_def COLON_def CR_def LF_def
    maxASCIIFrameLength_def)

text \<open>
  C6: for every finite byte sequence \<open>N\<close> without \<open>':'\<close> and every byte sequence \<open>F\<close>
  (a well-formed frame in particular), \<open>readASCIIFrame\<close> on \<open>N\<close> followed by \<open>F\<close>
  returns what it returns on \<open>F\<close> alone. After the \<open>':'\<close> the bytes are accumulated up
  to the first \<open>'\n'\<close>, whatever follows on the link, when that makes at most 513 bytes;
  when more than 513 bytes arrive without a \<open>'\n'\<close> among the first 513 the result is
  the protocol error. The maximum frame length is 513.
\<close>
theorem noise_before_frame:
  "(COLON \<notin> set N \<longrightarrow>
      readASCIIFrame (link_of_bytes (N @ F)) = readASCIIFrame (link_of_bytes F)) \<and>
   (COLON \<notin> set N \<and> LF \<notin> set body \<and> length body + 2 \<le> 513 \<longrightarrow>
      readASCIIFrame_loop (link_of_bytes (N @ COLON # body @ [LF]) @ link) [] False =
        Inr (COLON # body @ [LF])) \<and>
   (COLON \<notin> set N \<and> LF \<notin> set body \<and> length body + 1 > 513 \<longrightarrow>
      readASCIIFrame (link_of_bytes (N @ COLON # body) @ link) = Inl ErrProtocolError) \<and>
   maxASCIIFrameLength = 513"
proof -
  have 1: "readASCIIFrame (link_of_bytes (N @ F)) = readASCIIFrame (link_of_bytes F)"
    if "COLON \<notin> set N"
    using loop_noise [OF that, of "link_of_bytes F"]
    by (simp add: readASCIIFrame_def link_of_bytes_append)
  have 2: "readASCIIFrame_loop (link_of_bytes (N @ COLON # body @ [LF]) @ link) [] False =
        Inr (COLON # body @ [LF])"
    if n: "COLON \<notin> set N" and b: "LF \<notin> set body" and l: "length body + 2 \<le> 513"
  proof -
    have "readASCIIFrame_loop (link_of_bytes (N @ COLON # body @ [LF]) @ link) [] False =
          readASCIIFrame_loop (link_of_bytes (COLON # body @ [LF]) @ link) [] False"
      using loop_noise [OF n, of "link_of_bytes (COLON # body @ [LF]) @ link"]
      by (simp add: link_of_bytes_append)
    also have "\<dots> = readASCIIFrame_loop (link_of_bytes (body @ [LF]) @ link) [COLON] True"
      by (rule loop_colon)
    also have "\<dots> = Inr ([COLON] @ body @ [LF])"
      using b l by (intro loop_body) (simp_all add: maxASCIIFrameLength_def)
    finally show ?thesis by simp
  qed
  have 3: "readASCIIFrame (link_of_bytes (N @ COLON # body) @ link) = Inl ErrProtocolError"
    if n: "COLON \<notin> set N" and b: "LF \<notin> set body" and l: "length body + 1 > 513"
  proof -
    have "readASCIIFrame_loop (link_of_bytes (N @ COLON # body) @ link) [] False =
          readASCIIFrame_loop (link_of_bytes (COLON # body) @ link) [] False"
      using loop_noise [OF n, of "link_of_bytes (COLON # body) @ link"]
      by (simp add: link_of_bytes_append)
    also have "\<dots> = readASCIIFrame_loop (link_of_bytes body @ link) [COLON] True"
      by (rule loop_colon)
    also have "\<dots> = Inl ErrProtocolError"
      using b l by (intro loop_overflow) (simp_all add: maxASCIIFrameLength_def)
    finally show ?thesis by (simp add: readASCIIFrame_def)
  qed
  from 1 2 3 show ?thesis by (simp add: maxASCIIFrameLength_def)
qed

theorem noise_before_frame_witness:
  "COLON \<notin> set (bytes_of ''~#0A'') \<and> LF \<notin> set (bytes_of ''31030411223362'' @ [CR]) \<and>
   length (bytes_of ''31030411223362'' @ [CR]) + 2 \<le> 513 \<and>
   readASCIIFrame (link_of_bytes (bytes_of ''~#0A'' @ bytes_of '':31030411223362'' @ [CR, LF])) =
     Inr \<lparr>unitId = 0x31, functionCode = 0x03, payload = [0x04, 0x11, 0x22, 0x33]\<rparr> \<and>
   readASCIIFrame_loop (link_of_bytes (bytes_of ''~#0A'' @ COLON #
       (bytes_of ''31030411223362'' @ [CR]) @ [LF]) @ link_of_bytes (bytes_of '':33'')) [] False =
     Inr (COLON # (bytes_of ''31030411223362'' @ [CR]) @ [LF]) \<and>
   LF \<notin> set (replicate 513 (0x30 :: byte)) \<and> length (replicate 513 (0x30 :: byte)) + 1 > 513 \<and>
   readASCIIFrame (link_of_bytes (bytes_of ''~#0A'' @ COLON # replicate 513 0x30) @ []) =
     Inl ErrProtocolError"
proof -
  have n: "COLON \<notin> set (bytes_of ''~#0A'')"
    by (simp add: bytes_of_def COLON_def)
  have b: "LF \<notin> set (bytes_of ''31030411223362'' @ [CR])"
    by (simp add: bytes_of_def LF_def CR_def)
  have l: "length (bytes_of ''31030411223362'' @ [CR]) + 2 \<le> 513"
    by (simp add: bytes_of_def)
  have r: "LF \<notin> set (replicate 513 (0x30 :: byte))"
    by (simp add: LF_def)
  have rl: "length (replicate 513 (0x30 :: byte)) + 1 > 513"
    by simp
  have f: "readASCIIFrame (link_of_bytes (bytes_of '':31030411223362'' @ [CR, LF])) =
     Inr \<lparr>unitId = 0x31, functionCode = 0x03, payload = [0x04, 0x11, 0x22, 0x33]\<rparr>"
    by (simp add: readASCIIFrame_def link_of_bytes_def bytes_of_def COLON_def CR_def LF_def
        maxASCIIFrameLength_def fromHexChar_def verifyLRC_def computeLRC_def)
  note t1 = noise_before_frame [of "bytes_of ''~#0A''" "bytes_of '':31030411223362'' @ [CR, LF]"
      "bytes_of ''31030411223362'' @ [CR]" "link_of_bytes (bytes_of '':33'')"]
  note t2 = noise_before_frame [of "bytes_of ''~#0A''" "[]" "replicate 513 0x30" "[]"]
  from t1 n f have
    "readASCIIFrame (link_of_bytes (bytes_of ''~#0A'' @ bytes_of '':31030411223362'' @ [CR, LF])) =
     Inr \<lparr>unitId = 0x31, functionCode = 0x03, payload = [0x04, 0x11, 0x22, 0x33]\<rparr>"
    by simp
  moreover from t1 n b l have
    "readASCIIFrame_loop (link_of_bytes (bytes_of ''~#0A'' @ COLON #
       (bytes_of ''31030411223362'' @ [CR]) @ [LF]) @ link_of_bytes (bytes_of '':33'')) [] False =
     Inr (COLON # (bytes_of ''31030411223362'' @ [CR]) @ [LF])"
    by blast
  moreover from t2 n r rl have
    "readASCIIFrame (link_of_bytes (bytes_of ''~#0A'' @ COLON # replicate 513 0x30) @ []) =
     Inl ErrProtocolError"
    by blast
  ultimately show ?thesis using n b l r rl by blast
qed

text \<open>
  C10: for every PDU \<open>P\<close> the frame \<open>assembleASCIIFrame P\<close> has exactly
  \<open>2 * len(payload) + 9\<close> bytes, begins with \<open>':'\<close> and ends with \<open>'\r' '\n'\<close>; the bytes
  between are all upper-case hexadecimal digits, namely the two digits of the unit id,
  of the function code, of every payload byte and of the LRC, in this order, so that
  decoding them gives these bytes back.
\<close>
theorem assembleASCIIFrame_shape:
  "length (assembleASCIIFrame P) = 2 * length (payload P) + 9 \<and>
   assembleASCIIFrame P ! 0 = COLON \<and>
   drop (length (assembleASCIIFrame P) - 2) (assembleASCIIFrame P) = [CR, LF] \<and>
   set (drop 1 (take (length (assembleASCIIFrame P) - 2) (assembleASCIIFrame P)))
     \<subseteq> set (bytes_of ''0123456789ABCDEF'') \<and>
   drop 1 (take (length (assembleASCIIFrame P) - 2) (assembleASCIIFrame P)) =
     concat (map toHexUpper (unitId P # functionCode P # payload P @
       [computeLRC (unitId P # functionCode P # payload P)])) \<and>
   hex_Decode (drop 1 (take (length (assembleASCIIFrame P) - 2) (assembleASCIIFrame P))) =
     Some (unitId P # functionCode P # payload P @
       [computeLRC (unitId P # functionCode P # payload P)])"
proof -
  define raw where "raw = unitId P # functionCode P # payload P @
       [computeLRC (unitId P # functionCode P # payload P)]"
  define body where "body = concat (map toHexUpper raw)"
  have frame: "assembleASCIIFrame P = COLON # body @ [CR, LF]"
    by (simp add: assembleASCIIFrame_eq body_def raw_def)
  have len: "length body = 2 * length (payload P) + 6"
    unfolding body_def length_concat_toHexUpper by (simp add: raw_def)
  have interior: "drop 1 (take (length (assembleASCIIFrame P) - 2) (assembleASCIIFrame P)) = body"
    by (simp add: frame)
  have "length (assembleASCIIFrame P) = 2 * length (payload P) + 9"
    by (simp add: frame len)
  moreover have "assembleASCIIFrame P ! 0 = COLON"
    by (simp add: frame)
  moreover have "drop (length (assembleASCIIFrame P) - 2) (assembleASCIIFrame P) = [CR, LF]"
    by (simp add: frame)
  moreover have "set body \<subseteq> set (bytes_of ''0123456789ABCDEF'')"
    using concat_toHexUpper_subset [of raw] by (simp only: body_def hexTable_def)
  moreover have "hex_Decode body = Some raw"
    by (simp add: body_def hex_Decode_concat)
  ultimately show ?thesis
    unfolding interior by (simp add: body_def raw_def)
qed

section \<open>Properties of the timing\<close>

lemma wrap64_id: "- (2 ^ 63) \<le> x \<Longrightarrow> x < 2 ^ 63 \<Longrightarrow> wrap64 x = x"
  by (simp add: wrap64_def)

lemma dur_quot_nonneg: "0 \<le> a \<Longrightarrow> 0 < b \<Longrightarrow> dur_quot a b = a div b"
  by (cases "a = 0") (simp_all add: dur_quot_def)

text \<open>
  C7: \<open>newASCIITransport\<close> sets \<open>t35\<close> to the fixed 1750 microseconds when the speed is
  at least 19200 baud, and otherwise to 3.5 times the character time \<open>t1\<close>, computed on
  whole nanoseconds as \<open>t1 * 35 / 10\<close>, that is \<open>3.5 * t1\<close> rounded down (exact for a
  character time that is not negative and far from the 64-bit bound); a speed of zero
  is treated as 19200 baud.
\<close>
theorem newASCIITransport_t35:
  "(19200 \<le> speed \<longrightarrow>
      t35 (newASCIITransport serialCharTime speed tmo) = 1750 * 1000 \<and>
      t1 (newASCIITransport serialCharTime speed tmo) = serialCharTime speed) \<and>
   (0 < speed \<and> speed < 19200 \<longrightarrow>
      t1 (newASCIITransport serialCharTime speed tmo) = serialCharTime speed \<and>
      t35 (newASCIITransport serialCharTime speed tmo) =
        dur_quot (dur_mul (serialCharTime speed) 35) 10) \<and>
   (0 < speed \<and> speed < 19200 \<and> 0 \<le> serialCharTime speed \<and>
    serialCharTime speed * 35 < 2 ^ 63 \<longrightarrow>
      t35 (newASCIITransport serialCharTime speed tmo) = (35 * serialCharTime speed) div 10 \<and>
      2 * t35 (newASCIITransport serialCharTime speed tmo) \<le> 7 * serialCharTime speed \<and>
      7 * serialCharTime speed < 2 * t35 (newASCIITransport serialCharTime speed tmo) + 2) \<and>
   newASCIITransport serialCharTime 0 tmo = newASCIITransport serialCharTime 19200 tmo"
proof -
  let ?at = "newASCIITransport serialCharTime speed tmo"
  have hi: "t35 ?at = 1750 * 1000 \<and> t1 ?at = serialCharTime speed" if "19200 \<le> speed"
    using that by (simp add: newASCIITransport_def Microsecond_def)
  have lo: "t1 ?at = serialCharTime speed \<and>
      t35 ?at = dur_quot (dur_mul (serialCharTime speed) 35) 10"
    if "0 < speed \<and> speed < 19200"
    using that by (simp add: newASCIITransport_def)
  have fl: "t35 ?at = (35 * serialCharTime speed) div 10 \<and>
      2 * t35 ?at \<le> 7 * serialCharTime speed \<and> 7 * serialCharTime speed < 2 * t35 ?at + 2"
    if h: "0 < speed \<and> speed < 19200 \<and> 0 \<le> serialCharTime speed \<and>
      serialCharTime speed * 35 < 2 ^ 63"
  proof -
    from h have "dur_mul (serialCharTime speed) 35 = serialCharTime speed * 35"
      unfolding dur_mul_def by (intro wrap64_id) simp_all
    moreover from h have "dur_quot (serialCharTime speed * 35) 10 = (serialCharTime speed * 35) div 10"
      by (intro dur_quot_nonneg) simp_all
    ultimately have eq: "t35 ?at = (35 * serialCharTime speed) div 10"
      using lo h by (simp add: mult.commute)
    have "2 * ((35 * x) div 10) \<le> 7 * x \<and> 7 * x < 2 * ((35 * x) div 10) + 2" for x :: int
      by presburger
    from this [of "serialCharTime speed"] eq show ?thesis by (simp only:)
  qed
  have z: "newASCIITransport serialCharTime 0 tmo = newASCIITransport serialCharTime 19200 tmo"
    by (simp add: newASCIITransport_def)
  from hi lo fl z show ?thesis by blast
qed

theorem newASCIITransport_t35_witness:
  "(19200 :: nat) \<le> 115200 \<and>
   t35 (newASCIITransport (\<lambda>speed. (11 * 1000000000) div int speed) 115200 300000000) = 1750000 \<and>
   t35 (newASCIITransport (\<lambda>speed. (11 * 1000000000) div int speed) 0 300000000) = 1750000 \<and>
   (0 :: nat) < 9600 \<and> (9600 :: nat) < 19200 \<and>
   (0 :: int) \<le> (11 * 1000000000) div int 9600 \<and>
   (11 * 1000000000) div int 9600 * 35 < (2 :: int) ^ 63 \<and>
   t1 (newASCIITransport (\<lambda>speed. (11 * 1000000000) div int speed) 9600 300000000) = 1145833 \<and>
   t35 (newASCIITransport (\<lambda>speed. (11 * 1000000000) div int speed) 9600 300000000) = 4010415 \<and>
   (2 :: int) * 4010415 \<le> 7 * 1145833 \<and> (7 :: int) * 1145833 < 2 * 4010415 + 2"
proof -
  let ?f = "\<lambda>speed. (11 * 1000000000) div int speed"
  note a = newASCIITransport_t35 [of 115200 ?f 300000000]
  note b = newASCIITransport_t35 [of 9600 ?f 300000000]
  have "t35 (newASCIITransport ?f 115200 300000000) = 1750000"
    using a by simp
  moreover have "t35 (newASCIITransport ?f 0 300000000) = 1750000"
    using newASCIITransport_t35 [of 19200 ?f 300000000] by simp
  moreover have "t1 (newASCIITransport ?f 9600 300000000) = 1145833"
    using b by simp
  moreover have "t35 (newASCIITransport ?f 9600 300000000) = 4010415"
    using b by simp
  ultimately show ?thesis by simp
qed

subsection \<open>The outcomes of \<open>ExecuteRequest\<close>\<close>

lemma ExecuteRequest_SetDeadline_fails:
  assumes "SetDeadline_err l = Some e"
  shows "fst (ExecuteRequest l at w req) = Inl (ErrLink e)"
    and "fst (snd (ExecuteRequest l at w req)) = at"
    and "trace (snd (snd (ExecuteRequest l at w req))) = trace w"
  using assms by (simp_all add: ExecuteRequest_def link_SetDeadline_def elapse_def)

lemma ExecuteRequest_Write_fails:
  assumes "SetDeadline_err l = None" and "Write_err l = Some e"
  shows "\<exists>ts. lastActivity at + t35 at \<le> ts \<and> now w \<le> ts \<and>
           ts \<le> max (now w + int (d_SetDeadline l)) (lastActivity at + t35 at)
                  + int (oversleep l) \<and>
           fst (ExecuteRequest l at w req) = Inl (ErrLink e) \<and>
           fst (snd (ExecuteRequest l at w req)) = at \<and>
           trace (snd (snd (ExecuteRequest l at w req))) =
             trace w @ [EvWrite ts (assembleASCIIFrame req)]"
proof -
  define ts where "ts =
     (if now w + int (d_SetDeadline l) < lastActivity at + t35 at
      then lastActivity at + t35 at + int (oversleep l)
      else now w + int (d_SetDeadline l))"
  have "lastActivity at + t35 at \<le> ts \<and> now w \<le> ts \<and>
        ts \<le> max (now w + int (d_SetDeadline l)) (lastActivity at + t35 at) + int (oversleep l)"
    by (simp add: ts_def)
  moreover have "fst (ExecuteRequest l at w req) = Inl (ErrLink e)"
    and "fst (snd (ExecuteRequest l at w req)) = at"
    and "trace (snd (snd (ExecuteRequest l at w req))) =
           trace w @ [EvWrite ts (assembleASCIIFrame req)]"
    using assms
    by (simp_all add: ExecuteRequest_def Let_def Sleep_def link_SetDeadline_def link_Write_def
        elapse_def ts_def)
  ultimately show ?thesis by blast
qed

lemma ExecuteRequest_read:
  assumes "SetDeadline_err l = None" and "Write_err l = None"
  shows "\<exists>ts tr. lastActivity at + t35 at \<le> ts \<and> now w \<le> ts \<and>
           ts \<le> max (now w + int (d_SetDeadline l)) (lastActivity at + t35 at)
                  + int (oversleep l) \<and>
           ts + dur_mul (Write_n l) (t1 at) + t35 at \<le> tr \<and>
           fst (ExecuteRequest l at w req) = readASCIIFrame (Read_results l) \<and>
           trace (snd (snd (ExecuteRequest l at w req))) =
             trace w @ [EvWrite ts (assembleASCIIFrame req), EvRead tr] \<and>
           lastActivity (fst (snd (ExecuteRequest l at w req))) =
             (if readASCIIFrame (Read_results l) = Inl ErrRequestTimedOut
              then ts + dur_mul (Write_n l) (t1 at)
              else now (snd (snd (ExecuteRequest l at w req))))"
proof -
  define ts where "ts =
     (if now w + int (d_SetDeadline l) < lastActivity at + t35 at
      then lastActivity at + t35 at + int (oversleep l)
      else now w + int (d_SetDeadline l))"
  define tr where "tr =
     ts + int (d_Write l) +
     max 0 (ts + dur_mul (Write_n l) (t1 at) + t35 at - (ts + int (d_Write l))) +
     int (oversleep l)"
  have "lastActivity at + t35 at \<le> ts \<and> now w \<le> ts \<and>
        ts \<le> max (now w + int (d_SetDeadline l)) (lastActivity at + t35 at) + int (oversleep l)"
    by (simp add: ts_def)
  moreover have "ts + dur_mul (Write_n l) (t1 at) + t35 at \<le> tr"
    by (simp add: tr_def)
  moreover have "fst (ExecuteRequest l at w req) = readASCIIFrame (Read_results l)"
    and "trace (snd (snd (ExecuteRequest l at w req))) =
           trace w @ [EvWrite ts (assembleASCIIFrame req), EvRead tr]"
    and "lastActivity (fst (snd (ExecuteRequest l at w req))) =
           (if readASCIIFrame (Read_results l) = Inl ErrRequestTimedOut
            then ts + dur_mul (Write_n l) (t1 at)
            else now (snd (snd (ExecuteRequest l at w req))))"
    using assms
    by (simp_all add: ExecuteRequest_def Let_def Sleep_def link_SetDeadline_def link_Write_def
        link_readASCIIFrame_def discard_def elapse_def ts_def tr_def)
  ultimately show ?thesis by blast
qed

text \<open>Four runs of \<open>ExecuteRequest\<close> at 19200 baud, 500 microseconds after the last activity:
  no answer, an answer, a failing \<open>SetDeadline\<close> and a failing \<open>Write\<close>.\<close>

lemma example_frame:
  "assembleASCIIFrame \<lparr>unitId = 0x31, functionCode = 0x03, payload = [0x00, 0x00, 0x00, 0x02]\<rparr> =
   bytes_of '':310300000002CA'' @ [CR, LF]"
  by (simp add: assembleASCIIFrame_def computeLRC_def toHexUpper_def hexTable_def
      bytes_of_def COLON_def CR_def LF_def)

lemma example_response:
  "readASCIIFrame (link_of_bytes (bytes_of '':31030411223362'' @ [CR, LF])) =
   Inr \<lparr>unitId = 0x31, functionCode = 0x03, payload = [0x04, 0x11, 0x22, 0x33]\<rparr>"
  by (simp add: readASCIIFrame_def link_of_bytes_def bytes_of_def COLON_def CR_def LF_def
      maxASCIIFrameLength_def fromHexChar_def verifyLRC_def computeLRC_def)

lemma example_silence:
  "readASCIIFrame [] = Inl ErrRequestTimedOut"
  by (simp add: readASCIIFrame_def)

lemma run_timeout:
  "ExecuteRequest
       \<lparr>SetDeadline_err = None, Write_n = 17, Write_err = None,
        Read_results = [],
        d_SetDeadline = 1000, d_Write = 20000, d_Read = 300000000, d_discard = 500000,
        oversleep = 50000\<rparr>
       \<lparr>timeout = 300000000, lastActivity = 1000000000, t35 = 1750000, t1 = 572916\<rparr>
       \<lparr>now = 1000500000, trace = []\<rparr>
       \<lparr>unitId = 0x31, functionCode = 0x03, payload = [0x00, 0x00, 0x00, 0x02]\<rparr> =
     (Inl ErrRequestTimedOut,
      \<lparr>timeout = 300000000, lastActivity = 1011539572, t35 = 1750000, t1 = 572916\<rparr>,
      \<lparr>now = 1313339572, trace = [EvWrite 1001800000 (bytes_of '':310300000002CA'' @ [CR, LF]), EvRead 1013339572]\<rparr>)"
  by (simp add: ExecuteRequest_def Let_def Sleep_def link_SetDeadline_def link_Write_def
      link_readASCIIFrame_def discard_def elapse_def dur_mul_def wrap64_def example_frame example_silence)

lemma run_response:
  "ExecuteRequest
       \<lparr>SetDeadline_err = None, Write_n = 17, Write_err = None,
        Read_results = link_of_bytes (bytes_of '':31030411223362'' @ [CR, LF]),
        d_SetDeadline = 1000, d_Write = 20000, d_Read = 9000000, d_discard = 500000,
        oversleep = 50000\<rparr>
       \<lparr>timeout = 300000000, lastActivity = 1000000000, t35 = 1750000, t1 = 572916\<rparr>
       \<lparr>now = 1000500000, trace = []\<rparr>
       \<lparr>unitId = 0x31, functionCode = 0x03, payload = [0x00, 0x00, 0x00, 0x02]\<rparr> =
     (Inr \<lparr>unitId = 0x31, functionCode = 0x03, payload = [0x04, 0x11, 0x22, 0x33]\<rparr>,
      \<lparr>timeout = 300000000, lastActivity = 1022339572, t35 = 1750000, t1 = 572916\<rparr>,
      \<lparr>now = 1022339572, trace = [EvWrite 1001800000 (bytes_of '':310300000002CA'' @ [CR, LF]), EvRead 1013339572]\<rparr>)"
  by (simp add: ExecuteRequest_def Let_def Sleep_def link_SetDeadline_def link_Write_def
      link_readASCIIFrame_def discard_def elapse_def dur_mul_def wrap64_def example_frame example_response)

lemma run_SetDeadline_fails:
  "ExecuteRequest
       \<lparr>SetDeadline_err = Some IOFailure, Write_n = 0, Write_err = None,
        Read_results = [],
        d_SetDeadline = 1000, d_Write = 20000, d_Read = 300000000, d_discard = 500000,
        oversleep = 50000\<rparr>
       \<lparr>timeout = 300000000, lastActivity = 1000000000, t35 = 1750000, t1 = 572916\<rparr>
       \<lparr>now = 1000500000, trace = []\<rparr>
       \<lparr>unitId = 0x31, functionCode = 0x03, payload = [0x00, 0x00, 0x00, 0x02]\<rparr> =
     (Inl (ErrLink IOFailure),
      \<lparr>timeout = 300000000, lastActivity = 1000000000, t35 = 1750000, t1 = 572916\<rparr>,
      \<lparr>now = 1000501000, trace = []\<rparr>)"
  by (simp add: ExecuteRequest_def Let_def Sleep_def link_SetDeadline_def link_Write_def
      link_readASCIIFrame_def discard_def elapse_def dur_mul_def wrap64_def example_frame)

lemma run_Write_fails:
  "ExecuteRequest
       \<lparr>SetDeadline_err = None, Write_n = 0, Write_err = Some IOFailure,
        Read_results = [],
        d_SetDeadline = 1000, d_Write = 20000, d_Read = 300000000, d_discard = 500000,
        oversleep = 50000\<rparr>
       \<lparr>timeout = 300000000, lastActivity = 1000000000, t35 = 1750000, t1 = 572916\<rparr>
       \<lparr>now = 1000500000, trace = []\<rparr>
       \<lparr>unitId = 0x31, functionCode = 0x03, payload = [0x00, 0x00, 0x00, 0x02]\<rparr> =
     (Inl (ErrLink IOFailure),
      \<lparr>timeout = 300000000, lastActivity = 1000000000, t35 = 1750000, t1 = 572916\<rparr>,
      \<lparr>now = 1001820000, trace = [EvWrite 1001800000 (bytes_of '':310300000002CA'' @ [CR, LF])]\<rparr>)"
  by (simp add: ExecuteRequest_def Let_def Sleep_def link_SetDeadline_def link_Write_def
      link_readASCIIFrame_def discard_def elapse_def dur_mul_def wrap64_def example_frame)

text \<open>
  C8, as amended: when the read of the response fails with the request-timed-out error,
  \<open>lastActivity\<close> keeps the estimate made after the write, the time \<open>ts\<close> of the write
  plus \<open>n\<close> times \<open>t1\<close> for the \<open>n\<close> bytes written; on every other outcome of the read,
  a PDU or an error that is not the timeout, \<open>lastActivity\<close> is the time at which
  \<open>ExecuteRequest\<close> returns. When \<open>SetDeadline\<close> or \<open>Write\<close> fails,
  \<open>ExecuteRequest\<close> returns that error at once and \<open>lastActivity\<close> is left as it was;
  the run with a failing \<open>Write\<close> shows it.
\<close>
theorem ExecuteRequest_lastActivity:
  assumes "ExecuteRequest l at w req = (res, at', w')"
  shows "(SetDeadline_err l = None \<and> Write_err l = None \<longrightarrow>
            res = readASCIIFrame (Read_results l) \<and>
            (\<exists>ts tr. trace w' = trace w @ [EvWrite ts (assembleASCIIFrame req), EvRead tr] \<and>
               (res = Inl ErrRequestTimedOut \<longrightarrow>
                  lastActivity at' = ts + dur_mul (Write_n l) (t1 at)) \<and>
               (res \<noteq> Inl ErrRequestTimedOut \<longrightarrow> lastActivity at' = now w'))) \<and>
         (SetDeadline_err l = Some e \<longrightarrow>
            res = Inl (ErrLink e) \<and> lastActivity at' = lastActivity at) \<and>
         (SetDeadline_err l = None \<and> Write_err l = Some e \<longrightarrow>
            res = Inl (ErrLink e) \<and> lastActivity at' = lastActivity at)"
proof -
  from assms have sel: "fst (ExecuteRequest l at w req) = res"
    "fst (snd (ExecuteRequest l at w req)) = at'" "snd (snd (ExecuteRequest l at w req)) = w'"
    by simp_all
  have 1: "res = readASCIIFrame (Read_results l) \<and>
            (\<exists>ts tr. trace w' = trace w @ [EvWrite ts (assembleASCIIFrame req), EvRead tr] \<and>
               (res = Inl ErrRequestTimedOut \<longrightarrow>
                  lastActivity at' = ts + dur_mul (Write_n l) (t1 at)) \<and>
               (res \<noteq> Inl ErrRequestTimedOut \<longrightarrow> lastActivity at' = now w'))"
    if "SetDeadline_err l = None \<and> Write_err l = None"
  proof -
    from that ExecuteRequest_read [of l at w req] obtain ts tr where
      r: "res = readASCIIFrame (Read_results l)"
      and t: "trace w' = trace w @ [EvWrite ts (assembleASCIIFrame req), EvRead tr]"
      and a: "lastActivity at' =
             (if readASCIIFrame (Read_results l) = Inl ErrRequestTimedOut
              then ts + dur_mul (Write_n l) (t1 at) else now w')"
      unfolding sel by blast
    from a r have "(res = Inl ErrRequestTimedOut \<longrightarrow>
                  lastActivity at' = ts + dur_mul (Write_n l) (t1 at)) \<and>
               (res \<noteq> Inl ErrRequestTimedOut \<longrightarrow> lastActivity at' = now w')"
      by simp
    with r t show ?thesis by blast
  qed
  have 2: "res = Inl (ErrLink e) \<and> lastActivity at' = lastActivity at"
    if "SetDeadline_err l = Some e"
    using ExecuteRequest_SetDeadline_fails [OF that, of at w req] unfolding sel by simp
  have 3: "res = Inl (ErrLink e) \<and> lastActivity at' = lastActivity at"
    if "SetDeadline_err l = None \<and> Write_err l = Some e"
    using that ExecuteRequest_Write_fails [of l e at w req] unfolding sel by auto
  from 1 2 3 show ?thesis by blast
qed

theorem ExecuteRequest_lastActivity_witness:
  "ExecuteRequest
       \<lparr>SetDeadline_err = None, Write_n = 17, Write_err = None,
        Read_results = [],
        d_SetDeadline = 1000, d_Write = 20000, d_Read = 300000000, d_discard = 500000,
        oversleep = 50000\<rparr>
       \<lparr>timeout = 300000000, lastActivity = 1000000000, t35 = 1750000, t1 = 572916\<rparr>
       \<lparr>now = 1000500000, trace = []\<rparr>
       \<lparr>unitId = 0x31, functionCode = 0x03, payload = [0x00, 0x00, 0x00, 0x02]\<rparr> =
     (Inl ErrRequestTimedOut,
      \<lparr>timeout = 300000000, lastActivity = 1011539572, t35 = 1750000, t1 = 572916\<rparr>,
      \<lparr>now = 1313339572, trace = [EvWrite 1001800000 (bytes_of '':310300000002CA'' @ [CR, LF]), EvRead 1013339572]\<rparr>) \<and>
   (1011539572 :: int) = 1001800000 + dur_mul 17 572916 \<and>
   ExecuteRequest
       \<lparr>SetDeadline_err = None, Write_n = 17, Write_err = None,
        Read_results = link_of_bytes (bytes_of '':31030411223362'' @ [CR, LF]),
        d_SetDeadline = 1000, d_Write = 20000, d_Read = 9000000, d_discard = 500000,
        oversleep = 50000\<rparr>
       \<lparr>timeout = 300000000, lastActivity = 1000000000, t35 = 1750000, t1 = 572916\<rparr>
       \<lparr>now = 1000500000, trace = []\<rparr>
       \<lparr>unitId = 0x31, functionCode = 0x03, payload = [0x00, 0x00, 0x00, 0x02]\<rparr> =
     (Inr \<lparr>unitId = 0x31, functionCode = 0x03, payload = [0x04, 0x11, 0x22, 0x33]\<rparr>,
      \<lparr>timeout = 300000000, lastActivity = 1022339572, t35 = 1750000, t1 = 572916\<rparr>,
      \<lparr>now = 1022339572, trace = [EvWrite 1001800000 (bytes_of '':310300000002CA'' @ [CR, LF]), EvRead 1013339572]\<rparr>) \<and>
   ExecuteRequest
       \<lparr>SetDeadline_err = Some IOFailure, Write_n = 0, Write_err = None,
        Read_results = [],
        d_SetDeadline = 1000, d_Write = 20000, d_Read = 300000000, d_discard = 500000,
        oversleep = 50000\<rparr>
       \<lparr>timeout = 300000000, lastActivity = 1000000000, t35 = 1750000, t1 = 572916\<rparr>
       \<lparr>now = 1000500000, trace = []\<rparr>
       \<lparr>unitId = 0x31, functionCode = 0x03, payload = [0x00, 0x00, 0x00, 0x02]\<rparr> =
     (Inl (ErrLink IOFailure),
      \<lparr>timeout = 300000000, lastActivity = 1000000000, t35 = 1750000, t1 = 572916\<rparr>,
      \<lparr>now = 1000501000, trace = []\<rparr>) \<and>
   ExecuteRequest
       \<lparr>SetDeadline_err = None, Write_n = 0, Write_err = Some IOFailure,
        Read_results = [],
        d_SetDeadline = 1000, d_Write = 20000, d_Read = 300000000, d_discard = 500000,
        oversleep = 50000\<rparr>
       \<lparr>timeout = 300000000, lastActivity = 1000000000, t35 = 1750000, t1 = 572916\<rparr>
       \<lparr>now = 1000500000, trace = []\<rparr>
       \<lparr>unitId = 0x31, functionCode = 0x03, payload = [0x00, 0x00, 0x00, 0x02]\<rparr> =
     (Inl (ErrLink IOFailure),
      \<lparr>timeout = 300000000, lastActivity = 1000000000, t35 = 1750000, t1 = 572916\<rparr>,
      \<lparr>now = 1001820000, trace = [EvWrite 1001800000 (bytes_of '':310300000002CA'' @ [CR, LF])]\<rparr>)"
  using ExecuteRequest_lastActivity [OF run_timeout, of IOFailure]
    ExecuteRequest_lastActivity [OF run_response, of IOFailure]
    ExecuteRequest_lastActivity [OF run_SetDeadline_fails, of IOFailure]
    ExecuteRequest_lastActivity [OF run_Write_fails, of IOFailure]
    run_timeout run_response run_SetDeadline_fails run_Write_fails
  by (simp add: dur_mul_def wrap64_def)

theorem ExecuteRequest_lastActivity_counterexample:
  "ExecuteRequest
       \<lparr>SetDeadline_err = None, Write_n = 0, Write_err = Some IOFailure,
        Read_results = [],
        d_SetDeadline = 1000, d_Write = 20000, d_Read = 300000000, d_discard = 500000,
        oversleep = 50000\<rparr>
       \<lparr>timeout = 300000000, lastActivity = 1000000000, t35 = 1750000, t1 = 572916\<rparr>
       \<lparr>now = 1000500000, trace = []\<rparr>
       \<lparr>unitId = 0x31, functionCode = 0x03, payload = [0x00, 0x00, 0x00, 0x02]\<rparr> =
     (Inl (ErrLink IOFailure),
      \<lparr>timeout = 300000000, lastActivity = 1000000000, t35 = 1750000, t1 = 572916\<rparr>,
      \<lparr>now = 1001820000, trace = [EvWrite 1001800000 (bytes_of '':310300000002CA'' @ [CR, LF])]\<rparr>) \<and>
   Inl (ErrLink IOFailure) \<noteq> (Inl ErrRequestTimedOut :: error + pdu) \<and>
   lastActivity \<lparr>timeout = 300000000, lastActivity = 1000000000, t35 = 1750000, t1 = 572916\<rparr> \<noteq>
     now \<lparr>now = 1001820000, trace = [EvWrite 1001800000 (bytes_of '':310300000002CA'' @ [CR, LF])]\<rparr>"
  using run_Write_fails by simp

subsection \<open>Silence before and after the request\<close>

lemma ExecuteRequest_silence_ascii:
  assumes "ExecuteRequest l at w req = (res, at', w')"
  shows "(SetDeadline_err l \<noteq> None \<longrightarrow> trace w' = trace w) \<and>
         (SetDeadline_err l = None \<longrightarrow>
            (\<exists>ts. lastActivity at + t35 at \<le> ts \<and>
               ts \<le> max (now w + int (d_SetDeadline l)) (lastActivity at + t35 at)
                      + int (oversleep l) \<and>
               (Write_err l \<noteq> None \<longrightarrow>
                  trace w' = trace w @ [EvWrite ts (assembleASCIIFrame req)]) \<and>
               (Write_err l = None \<longrightarrow>
                  (\<exists>tr. ts + dur_mul (Write_n l) (t1 at) + t35 at \<le> tr \<and>
                     trace w' = trace w @ [EvWrite ts (assembleASCIIFrame req), EvRead tr]))))"
proof -
  from assms have sel: "fst (ExecuteRequest l at w req) = res"
    "fst (snd (ExecuteRequest l at w req)) = at'" "snd (snd (ExecuteRequest l at w req)) = w'"
    by simp_all
  have 1: "trace w' = trace w" if "SetDeadline_err l \<noteq> None"
  proof -
    from that obtain e where "SetDeadline_err l = Some e" by blast
    from ExecuteRequest_SetDeadline_fails(3) [OF this, of at w req] show ?thesis
      unfolding sel .
  qed
  have 2: "\<exists>ts. lastActivity at + t35 at \<le> ts \<and>
               ts \<le> max (now w + int (d_SetDeadline l)) (lastActivity at + t35 at)
                      + int (oversleep l) \<and>
               (Write_err l \<noteq> None \<longrightarrow>
                  trace w' = trace w @ [EvWrite ts (assembleASCIIFrame req)]) \<and>
               (Write_err l = None \<longrightarrow>
                  (\<exists>tr. ts + dur_mul (Write_n l) (t1 at) + t35 at \<le> tr \<and>
                     trace w' = trace w @ [EvWrite ts (assembleASCIIFrame req), EvRead tr]))"
    if sd: "SetDeadline_err l = None"
  proof (cases "Write_err l")
    case None
    from ExecuteRequest_read [OF sd None, of at w req] show ?thesis
      unfolding sel using None by blast
  next
    case (Some e)
    from ExecuteRequest_Write_fails [OF sd Some, of at w req] show ?thesis
      unfolding sel using Some by auto
  qed
  from 1 2 show ?thesis by blast
qed

lemma rtu_ExecuteRequest_SetDeadline_fails:
  assumes "SetDeadline_err rl = Some e"
  shows "trace (snd (snd (rtu_ExecuteRequest rl m response rt rw rreq))) = trace rw"
  using assms by (simp add: rtu_ExecuteRequest_def link_SetDeadline_def elapse_def)

lemma rtu_ExecuteRequest_Write_fails:
  assumes "SetDeadline_err rl = None" and "Write_err rl = Some e"
  shows "\<exists>ts. rtu_lastActivity rt + rtu_t35 rt \<le> ts \<and>
           ts \<le> max (now rw + int (d_SetDeadline rl)) (rtu_lastActivity rt + rtu_t35 rt)
                  + int (oversleep rl) \<and>
           trace (snd (snd (rtu_ExecuteRequest rl m response rt rw rreq))) =
             trace rw @ [EvWrite ts (assembleRTUFrame rreq)]"
proof -
  define ts where "ts =
     (if now rw + int (d_SetDeadline rl) < rtu_lastActivity rt + rtu_t35 rt
      then rtu_lastActivity rt + rtu_t35 rt + int (oversleep rl)
      else now rw + int (d_SetDeadline rl))"
  have "rtu_lastActivity rt + rtu_t35 rt \<le> ts \<and>
        ts \<le> max (now rw + int (d_SetDeadline rl)) (rtu_lastActivity rt + rtu_t35 rt)
               + int (oversleep rl)"
    by (simp add: ts_def)
  moreover have "trace (snd (snd (rtu_ExecuteRequest rl m response rt rw rreq))) =
           trace rw @ [EvWrite ts (assembleRTUFrame rreq)]"
    using assms
    by (simp add: rtu_ExecuteRequest_def Let_def Sleep_def link_SetDeadline_def link_Write_def
        elapse_def ts_def)
  ultimately show ?thesis by blast
qed

lemma rtu_ExecuteRequest_read:
  assumes "SetDeadline_err rl = None" and "Write_err rl = None"
  shows "\<exists>ts tr. rtu_lastActivity rt + rtu_t35 rt \<le> ts \<and>
           ts \<le> max (now rw + int (d_SetDeadline rl)) (rtu_lastActivity rt + rtu_t35 rt)
                  + int (oversleep rl) \<and>
           ts + dur_mul (Write_n rl) (rtu_t1 rt) + rtu_t35 rt \<le> tr \<and>
           trace (snd (snd (rtu_ExecuteRequest rl m response rt rw rreq))) =
             trace rw @ [EvWrite ts (assembleRTUFrame rreq), EvRead tr]"
proof -
  define ts where "ts =
     (if now rw + int (d_SetDeadline rl) < rtu_lastActivity rt + rtu_t35 rt
      then rtu_lastActivity rt + rtu_t35 rt + int (oversleep rl)
      else now rw + int (d_SetDeadline rl))"
  define tr where "tr =
     ts + int (d_Write rl) +
     max 0 (ts + dur_mul (Write_n rl) (rtu_t1 rt) + rtu_t35 rt - (ts + int (d_Write rl))) +
     int (oversleep rl)"
  have "rtu_lastActivity rt + rtu_t35 rt \<le> ts \<and>
        ts \<le> max (now rw + int (d_SetDeadline rl)) (rtu_lastActivity rt + rtu_t35 rt)
               + int (oversleep rl)"
    by (simp add: ts_def)
  moreover have "ts + dur_mul (Write_n rl) (rtu_t1 rt) + rtu_t35 rt \<le> tr"
    by (simp add: tr_def)
  moreover have "trace (snd (snd (rtu_ExecuteRequest rl m response rt rw rreq))) =
           trace rw @ [EvWrite ts (assembleRTUFrame rreq), EvRead tr]"
    using assms
    by (simp add: rtu_ExecuteRequest_def Let_def Sleep_def link_SetDeadline_def link_Write_def
        link_readRTUFrame_def discard_def elapse_def ts_def tr_def)
  ultimately show ?thesis by blast
qed

lemma ExecuteRequest_silence_rtu:
  assumes "rtu_ExecuteRequest rl m response rt rw rreq = (rres, rt', rw')"
  shows "(SetDeadline_err rl \<noteq> None \<longrightarrow> trace rw' = trace rw) \<and>
         (SetDeadline_err rl = None \<longrightarrow>
            (\<exists>ts. rtu_lastActivity rt + rtu_t35 rt \<le> ts \<and>
               ts \<le> max (now rw + int (d_SetDeadline rl)) (rtu_lastActivity rt + rtu_t35 rt)
                      + int (oversleep rl) \<and>
               (Write_err rl \<noteq> None \<longrightarrow>
                  trace rw' = trace rw @ [EvWrite ts (assembleRTUFrame rreq)]) \<and>
               (Write_err rl = None \<longrightarrow>
                  (\<exists>tr. ts + dur_mul (Write_n rl) (rtu_t1 rt) + rtu_t35 rt \<le> tr \<and>
                     trace rw' = trace rw @ [EvWrite ts (assembleRTUFrame rreq), EvRead tr]))))"
proof -
  from assms have sel: "snd (snd (rtu_ExecuteRequest rl m response rt rw rreq)) = rw'"
    by simp
  have 1: "trace rw' = trace rw" if "SetDeadline_err rl \<noteq> None"
  proof -
    from that obtain e where "SetDeadline_err rl = Some e" by blast
    from rtu_ExecuteRequest_SetDeadline_fails [OF this, of m response rt rw rreq] show ?thesis
      unfolding sel .
  qed
  have 2: "\<exists>ts. rtu_lastActivity rt + rtu_t35 rt \<le> ts \<and>
               ts \<le> max (now rw + int (d_SetDeadline rl)) (rtu_lastActivity rt + rtu_t35 rt)
                      + int (oversleep rl) \<and>
               (Write_err rl \<noteq> None \<longrightarrow>
                  trace rw' = trace rw @ [EvWrite ts (assembleRTUFrame rreq)]) \<and>
               (Write_err rl = None \<longrightarrow>
                  (\<exists>tr. ts + dur_mul (Write_n rl) (rtu_t1 rt) + rtu_t35 rt \<le> tr \<and>
                     trace rw' = trace rw @ [EvWrite ts (assembleRTUFrame rreq), EvRead tr]))"
    if sd: "SetDeadline_err rl = None"
  proof (cases "Write_err rl")
    case None
    from rtu_ExecuteRequest_read [OF sd None, of rt rw m response rreq] show ?thesis
      unfolding sel using None by blast
  next
    case (Some e)
    from rtu_ExecuteRequest_Write_fails [OF sd Some, of rt rw m response rreq] show ?thesis
      unfolding sel using Some by auto
  qed
  from 1 2 show ?thesis by blast
qed

text \<open>Three runs of the RTU \<open>ExecuteRequest\<close> at 19200 baud, 500 microseconds after the last
  activity: an answer, a failing \<open>SetDeadline\<close> and a failing \<open>Write\<close>.\<close>

lemma funpow8: "(f ^^ 8) x = f (f (f (f (f (f (f (f x)))))))"
proof -
  have "(8 :: nat) = Suc (Suc (Suc (Suc (Suc (Suc (Suc (Suc 0)))))))" by simp
  then show ?thesis by (simp only: funpow.simps o_apply id_apply)
qed

lemma rtu_example_frame:
  "assembleRTUFrame \<lparr>unitId = 0x01, functionCode = 0x03, payload = [0x00, 0x00, 0x00, 0x0A]\<rparr> =
   [0x01, 0x03, 0x00, 0x00, 0x00, 0x0A, 0xC5, 0xCD]"
  by (simp add: assembleRTUFrame_def computeCRC16_def crc16_update_def crc16_shift_def funpow8)

lemma rtu_run_response:
  "rtu_ExecuteRequest
       \<lparr>SetDeadline_err = None, Write_n = 8, Write_err = None, Read_results = [],
        d_SetDeadline = 1000, d_Write = 20000, d_Read = 9000000, d_discard = 500000,
        oversleep = 50000\<rparr>
       256 (Inr \<lparr>unitId = 0x01, functionCode = 0x03, payload = [0x02, 0x12, 0x34]\<rparr>)
       \<lparr>rtu_timeout = 300000000, rtu_lastActivity = 1000000000, rtu_t35 = 1750000,
         rtu_t1 = 572916\<rparr>
       \<lparr>now = 1000500000, trace = []\<rparr>
       \<lparr>unitId = 0x01, functionCode = 0x03, payload = [0x00, 0x00, 0x00, 0x0A]\<rparr> =
     (Inr \<lparr>unitId = 0x01, functionCode = 0x03, payload = [0x02, 0x12, 0x34]\<rparr>,
      \<lparr>rtu_timeout = 300000000, rtu_lastActivity = 1017183328, rtu_t35 = 1750000,
         rtu_t1 = 572916\<rparr>,
      \<lparr>now = 1017183328, trace = [EvWrite 1001800000 [0x01, 0x03, 0x00, 0x00, 0x00, 0x0A, 0xC5, 0xCD], EvRead 1008183328]\<rparr>)"
  by (simp add: rtu_ExecuteRequest_def Let_def Sleep_def link_SetDeadline_def link_Write_def
      link_readRTUFrame_def discard_def elapse_def dur_mul_def wrap64_def rtu_example_frame)

lemma rtu_run_SetDeadline_fails:
  "rtu_ExecuteRequest
       \<lparr>SetDeadline_err = Some IOFailure, Write_n = 0, Write_err = None, Read_results = [],
        d_SetDeadline = 1000, d_Write = 20000, d_Read = 9000000, d_discard = 500000,
        oversleep = 50000\<rparr>
       256 (Inr \<lparr>unitId = 0x01, functionCode = 0x03, payload = [0x02, 0x12, 0x34]\<rparr>)
       \<lparr>rtu_timeout = 300000000, rtu_lastActivity = 1000000000, rtu_t35 = 1750000,
         rtu_t1 = 572916\<rparr>
       \<lparr>now = 1000500000, trace = []\<rparr>
       \<lparr>unitId = 0x01, functionCode = 0x03, payload = [0x00, 0x00, 0x00, 0x0A]\<rparr> =
     (Inl (RTULink IOFailure),
      \<lparr>rtu_timeout = 300000000, rtu_lastActivity = 1000000000, rtu_t35 = 1750000,
         rtu_t1 = 572916\<rparr>,
      \<lparr>now = 1000501000, trace = []\<rparr>)"
  by (simp add: rtu_ExecuteRequest_def Let_def Sleep_def link_SetDeadline_def link_Write_def
      link_readRTUFrame_def discard_def elapse_def dur_mul_def wrap64_def rtu_example_frame)

lemma rtu_run_Write_fails:
  "rtu_ExecuteRequest
       \<lparr>SetDeadline_err = None, Write_n = 0, Write_err = Some IOFailure, Read_results = [],
        d_SetDeadline = 1000, d_Write = 20000, d_Read = 9000000, d_discard = 500000,
        oversleep = 50000\<rparr>
       256 (Inr \<lparr>unitId = 0x01, functionCode = 0x03, payload = [0x02, 0x12, 0x34]\<rparr>)
       \<lparr>rtu_timeout = 300000000, rtu_lastActivity = 1000000000, rtu_t35 = 1750000,
         rtu_t1 = 572916\<rparr>
       \<lparr>now = 1000500000, trace = []\<rparr>
       \<lparr>unitId = 0x01, functionCode = 0x03, payload = [0x00, 0x00, 0x00, 0x0A]\<rparr> =
     (Inl (RTULink IOFailure),
      \<lparr>rtu_timeout = 300000000, rtu_lastActivity = 1000000000, rtu_t35 = 1750000,
         rtu_t1 = 572916\<rparr>,
      \<lparr>now = 1001820000, trace = [EvWrite 1001800000 [0x01, 0x03, 0x00, 0x00, 0x00, 0x0A, 0xC5, 0xCD]]\<rparr>)"
  by (simp add: rtu_ExecuteRequest_def Let_def Sleep_def link_SetDeadline_def link_Write_def
      link_readRTUFrame_def discard_def elapse_def dur_mul_def wrap64_def rtu_example_frame)

text \<open>
  C9: on the RTU and on the ASCII transport no request frame is written before \<open>t3.5\<close>
  has passed since the last activity on the link: \<open>ExecuteRequest\<close> writes the frame at
  a time \<open>ts\<close> that is at least the last activity plus \<open>t3.5\<close>, having slept for the rest
  of that window and no longer (up to the overshoot of the sleep), and it starts to
  read the response at a time \<open>tr\<close> that is at least \<open>t3.5\<close> after the end of the frame
  on the wire, \<open>ts\<close> plus \<open>n\<close> times \<open>t1\<close>. Nothing is written when \<open>SetDeadline\<close>
  fails. The first half of the statement is the ASCII transport, the second the RTU
  transport.
\<close>
theorem ExecuteRequest_silence:
  assumes "ExecuteRequest l at w req = (res, at', w')"
    and "rtu_ExecuteRequest rl m response rt rw rreq = (rres, rt', rw')"
  shows "((SetDeadline_err l \<noteq> None \<longrightarrow> trace w' = trace w) \<and>
         (SetDeadline_err l = None \<longrightarrow>
            (\<exists>ts. lastActivity at + t35 at \<le> ts \<and>
               ts \<le> max (now w + int (d_SetDeadline l)) (lastActivity at + t35 at)
                      + int (oversleep l) \<and>
               (Write_err l \<noteq> None \<longrightarrow>
                  trace w' = trace w @ [EvWrite ts (assembleASCIIFrame req)]) \<and>
               (Write_err l = None \<longrightarrow>
                  (\<exists>tr. ts + dur_mul (Write_n l) (t1 at) + t35 at \<le> tr \<and>
                     trace w' = trace w @ [EvWrite ts (assembleASCIIFrame req), EvRead tr]))))) \<and>
         ((SetDeadline_err rl \<noteq> None \<longrightarrow> trace rw' = trace rw) \<and>
         (SetDeadline_err rl = None \<longrightarrow>
            (\<exists>ts. rtu_lastActivity rt + rtu_t35 rt \<le> ts \<and>
               ts \<le> max (now rw + int (d_SetDeadline rl)) (rtu_lastActivity rt + rtu_t35 rt)
                      + int (oversleep rl) \<and>
               (Write_err rl \<noteq> None \<longrightarrow>
                  trace rw' = trace rw @ [EvWrite ts (assembleRTUFrame rreq)]) \<and>
               (Write_err rl = None \<longrightarrow>
                  (\<exists>tr. ts + dur_mul (Write_n rl) (rtu_t1 rt) + rtu_t35 rt \<le> tr \<and>
                     trace rw' = trace rw @ [EvWrite ts (assembleRTUFrame rreq), EvRead tr])))))"
  using ExecuteRequest_silence_ascii [OF assms(1)] ExecuteRequest_silence_rtu [OF assms(2)]
  by (rule conjI)

theorem ExecuteRequest_silence_witness:
  "ExecuteRequest
       \<lparr>SetDeadline_err = None, Write_n = 17, Write_err = None,
        Read_results = link_of_bytes (bytes_of '':31030411223362'' @ [CR, LF]),
        d_SetDeadline = 1000, d_Write = 20000, d_Read = 9000000, d_discard = 500000,
        oversleep = 50000\<rparr>
       \<lparr>timeout = 300000000, lastActivity = 1000000000, t35 = 1750000, t1 = 572916\<rparr>
       \<lparr>now = 1000500000, trace = []\<rparr>
       \<lparr>unitId = 0x31, functionCode = 0x03, payload = [0x00, 0x00, 0x00, 0x02]\<rparr> =
     (Inr \<lparr>unitId = 0x31, functionCode = 0x03, payload = [0x04, 0x11, 0x22, 0x33]\<rparr>,
      \<lparr>timeout = 300000000, lastActivity = 1022339572, t35 = 1750000, t1 = 572916\<rparr>,
      \<lparr>now = 1022339572, trace = [EvWrite 1001800000 (bytes_of '':310300000002CA'' @ [CR, LF]), EvRead 1013339572]\<rparr>) \<and>
   (1000000000 :: int) + 1750000 \<le> 1001800000 \<and>
   (1001800000 :: int) + dur_mul 17 572916 + 1750000 \<le> 1013339572 \<and>
   ExecuteRequest
       \<lparr>SetDeadline_err = Some IOFailure, Write_n = 0, Write_err = None,
        Read_results = [],
        d_SetDeadline = 1000, d_Write = 20000, d_Read = 300000000, d_discard = 500000,
        oversleep = 50000\<rparr>
       \<lparr>timeout = 300000000, lastActivity = 1000000000, t35 = 1750000, t1 = 572916\<rparr>
       \<lparr>now = 1000500000, trace = []\<rparr>
       \<lparr>unitId = 0x31, functionCode = 0x03, payload = [0x00, 0x00, 0x00, 0x02]\<rparr> =
     (Inl (ErrLink IOFailure),
      \<lparr>timeout = 300000000, lastActivity = 1000000000, t35 = 1750000, t1 = 572916\<rparr>,
      \<lparr>now = 1000501000, trace = []\<rparr>) \<and>
   ExecuteRequest
       \<lparr>SetDeadline_err = None, Write_n = 0, Write_err = Some IOFailure,
        Read_results = [],
        d_SetDeadline = 1000, d_Write = 20000, d_Read = 300000000, d_discard = 500000,
        oversleep = 50000\<rparr>
       \<lparr>timeout = 300000000, lastActivity = 1000000000, t35 = 1750000, t1 = 572916\<rparr>
       \<lparr>now = 1000500000, trace = []\<rparr>
       \<lparr>unitId = 0x31, functionCode = 0x03, payload = [0x00, 0x00, 0x00, 0x02]\<rparr> =
     (Inl (ErrLink IOFailure),
      \<lparr>timeout = 300000000, lastActivity = 1000000000, t35 = 1750000, t1 = 572916\<rparr>,
      \<lparr>now = 1001820000, trace = [EvWrite 1001800000 (bytes_of '':310300000002CA'' @ [CR, LF])]\<rparr>) \<and>
   rtu_ExecuteRequest
       \<lparr>SetDeadline_err = None, Write_n = 8, Write_err = None, Read_results = [],
        d_SetDeadline = 1000, d_Write = 20000, d_Read = 9000000, d_discard = 500000,
        oversleep = 50000\<rparr>
       256 (Inr \<lparr>unitId = 0x01, functionCode = 0x03, payload = [0x02, 0x12, 0x34]\<rparr>)
       \<lparr>rtu_timeout = 300000000, rtu_lastActivity = 1000000000, rtu_t35 = 1750000,
         rtu_t1 = 572916\<rparr>
       \<lparr>now = 1000500000, trace = []\<rparr>
       \<lparr>unitId = 0x01, functionCode = 0x03, payload = [0x00, 0x00, 0x00, 0x0A]\<rparr> =
     (Inr \<lparr>unitId = 0x01, functionCode = 0x03, payload = [0x02, 0x12, 0x34]\<rparr>,
      \<lparr>rtu_timeout = 300000000, rtu_lastActivity = 1017183328, rtu_t35 = 1750000,
         rtu_t1 = 572916\<rparr>,
      \<lparr>now = 1017183328, trace = [EvWrite 1001800000 [0x01, 0x03, 0x00, 0x00, 0x00, 0x0A, 0xC5, 0xCD], EvRead 1008183328]\<rparr>) \<and>
   (1000000000 :: int) + 1750000 \<le> 1001800000 \<and>
   (1001800000 :: int) + dur_mul 8 572916 + 1750000 \<le> 1008183328 \<and>
   rtu_ExecuteRequest
       \<lparr>SetDeadline_err = Some IOFailure, Write_n = 0, Write_err = None, Read_results = [],
        d_SetDeadline = 1000, d_Write = 20000, d_Read = 9000000, d_discard = 500000,
        oversleep = 50000\<rparr>
       256 (Inr \<lparr>unitId = 0x01, functionCode = 0x03, payload = [0x02, 0x12, 0x34]\<rparr>)
       \<lparr>rtu_timeout = 300000000, rtu_lastActivity = 1000000000, rtu_t35 = 1750000,
         rtu_t1 = 572916\<rparr>
       \<lparr>now = 1000500000, trace = []\<rparr>
       \<lparr>unitId = 0x01, functionCode = 0x03, payload = [0x00, 0x00, 0x00, 0x0A]\<rparr> =
     (Inl (RTULink IOFailure),
      \<lparr>rtu_timeout = 300000000, rtu_lastActivity = 1000000000, rtu_t35 = 1750000,
         rtu_t1 = 572916\<rparr>,
      \<lparr>now = 1000501000, trace = []\<rparr>) \<and>
   rtu_ExecuteRequest
       \<lparr>SetDeadline_err = None, Write_n = 0, Write_err = Some IOFailure, Read_results = [],
        d_SetDeadline = 1000, d_Write = 20000, d_Read = 9000000, d_discard = 500000,
        oversleep = 50000\<rparr>
       256 (Inr \<lparr>unitId = 0x01, functionCode = 0x03, payload = [0x02, 0x12, 0x34]\<rparr>)
       \<lparr>rtu_timeout = 300000000, rtu_lastActivity = 1000000000, rtu_t35 = 1750000,
         rtu_t1 = 572916\<rparr>
       \<lparr>now = 1000500000, trace = []\<rparr>
       \<lparr>unitId = 0x01, functionCode = 0x03, payload = [0x00, 0x00, 0x00, 0x0A]\<rparr> =
     (Inl (RTULink IOFailure),
      \<lparr>rtu_timeout = 300000000, rtu_lastActivity = 1000000000, rtu_t35 = 1750000,
         rtu_t1 = 572916\<rparr>,
      \<lparr>now = 1001820000, trace = [EvWrite 1001800000 [0x01, 0x03, 0x00, 0x00, 0x00, 0x0A, 0xC5, 0xCD]]\<rparr>)"
  using ExecuteRequest_silence [OF run_response rtu_run_response]
    ExecuteRequest_silence [OF run_SetDeadline_fails rtu_run_SetDeadline_fails]
    ExecuteRequest_silence [OF run_Write_fails rtu_run_Write_fails]
    run_response run_SetDeadline_fails run_Write_fails
    rtu_run_response rtu_run_SetDeadline_fails rtu_run_Write_fails
  by (simp add: dur_mul_def wrap64_def)

end
